theory Spec2Isabelle
  imports Complex_Main "HOL-Library.Multiset" "HOL-Library.Sublist"
begin

section \<open>Python values used by the pipeline\<close>

text \<open>
  The agents exchange Python dictionaries with a fixed set of string keys. Each such
  dictionary is a record whose fields are options: \<open>None\<close> is an absent key, so that
  \<open>d.get(key, default)\<close> is \<open>case field d of None \<Rightarrow> default | Some v \<Rightarrow> v\<close> and the empty
  dictionary \<open>{}\<close> is the record with every field \<open>None\<close>. Values have the types the
  source's \<open>TypedDict\<close> declarations give them. Python floats are modelled by reals
  (exact arithmetic), strings by lists of 8-bit characters.
\<close>

datatype py_error =
    ValueError string
  | FileNotFoundError string
  | TypeError string
  | IndexError string
  | KeyError string
  | BackendError string

text \<open>\<open>str(e)\<close>: the message an exception was raised with.\<close>

fun str_of_error :: "py_error \<Rightarrow> string" where
  "str_of_error (ValueError m) = m"
| "str_of_error (FileNotFoundError m) = m"
| "str_of_error (TypeError m) = m"
| "str_of_error (IndexError m) = m"
| "str_of_error (KeyError m) = m"
| "str_of_error (BackendError m) = m"

subsection \<open>Strings\<close>

text \<open>
  \<open>str.lower()\<close> on the ASCII letters, which are the letters of every keyword of the
  tables below; every other character is left as it is.
\<close>

definition lower_char :: "char \<Rightarrow> char" where
  "lower_char c =
     (case map_of (zip ''ABCDEFGHIJKLMNOPQRSTUVWXYZ'' ''abcdefghijklmnopqrstuvwxyz'') c of
        None \<Rightarrow> c
      | Some l \<Rightarrow> l)"

definition lower :: "string \<Rightarrow> string" where
  "lower s = map lower_char s"

fun startswith :: "string \<Rightarrow> string \<Rightarrow> bool" where
  "startswith [] ys = True"
| "startswith (x # xs) [] = False"
| "startswith (x # xs) (y # ys) = (x = y \<and> startswith xs ys)"

text \<open>\<open>str_in kw text\<close> is Python's \<open>kw in text\<close> on strings: \<open>kw\<close> is a substring.\<close>

fun str_in :: "string \<Rightarrow> string \<Rightarrow> bool" where
  "str_in kw [] = (kw = [])"
| "str_in kw (c # cs) = (startswith kw (c # cs) \<or> str_in kw cs)"

text \<open>\<open>any(keyword in text for keyword in keywords)\<close>.\<close>

definition any_in :: "string list \<Rightarrow> string \<Rightarrow> bool" where
  "any_in keywords text = list_ex (\<lambda>keyword. str_in keyword text) keywords"

text \<open>\<open>sep.join(parts)\<close>.\<close>

fun join :: "string \<Rightarrow> string list \<Rightarrow> string" where
  "join sep [] = []"
| "join sep [x] = x"
| "join sep (x # y # ys) = x @ sep @ join sep (y # ys)"

text \<open>\<open>str(n)\<close> for a non-negative integer.\<close>

definition digit_char :: "nat \<Rightarrow> char" where
  "digit_char d = ''0123456789'' ! d"

function str_nat :: "nat \<Rightarrow> string" where
  "str_nat n = (if n < 10 then [digit_char n] else str_nat (n div 10) @ [digit_char (n mod 10)])"
  by pat_completeness auto
termination
  by (relation "measure id") auto

declare str_nat.simps [simp del]

text \<open>
  \<open>str.strip()\<close>: the characters for which \<open>str.isspace\<close> holds are removed from both
  ends. Among the code points below 256 these are 9 to 13, 28 to 32, 0x85 and 0xA0.
\<close>

definition isspace :: "char \<Rightarrow> bool" where
  "isspace c =
     (let n = (of_char c :: nat)
      in (9 \<le> n \<and> n \<le> 13) \<or> (28 \<le> n \<and> n \<le> 32) \<or> n = 0x85 \<or> n = 0xA0)"

definition strip :: "string \<Rightarrow> string" where
  "strip s = rev (dropWhile isspace (rev (dropWhile isspace s)))"

section \<open>The domain catalogue (config/settings.py)\<close>

text \<open>
  \<open>DOMAIN_KEYWORDS\<close> is a dictionary literal; Python dictionaries keep insertion order,
  so it is an association list in the order of the declaration.
\<close>

type_synonym catalog = "(string \<times> string list) list"

definition DOMAIN_KEYWORDS :: catalog where
  "DOMAIN_KEYWORDS =
    [(''finance'',
       [''financial'', ''banking'', ''investment'', ''stock'', ''bond'', ''portfolio'',
        ''accounting'', ''audit'', ''revenue'', ''profit'', ''loss'', ''balance sheet'',
        ''income statement'', ''cash flow'', ''equity'', ''asset'', ''liability'',
        ''fiscal'', ''monetary'', ''securities'', ''derivatives'', ''hedge fund'']),
     (''law'',
       [''legal'', ''court'', ''judge'', ''attorney'', ''lawsuit'', ''plaintiff'',
        ''defendant'', ''verdict'', ''statute'', ''regulation'', ''compliance'',
        ''contract'', ''agreement'', ''litigation'', ''jurisdiction'', ''appeal'',
        ''prosecution'', ''defense'', ''testimony'', ''evidence'', ''judicial'']),
     (''science'',
       [''research'', ''experiment'', ''hypothesis'', ''theory'', ''methodology'',
        ''analysis'', ''data'', ''results'', ''conclusion'', ''abstract'', ''publication'',
        ''peer review'', ''scientific'', ''laboratory'', ''variable'', ''control'',
        ''observation'', ''phenomenon'', ''empirical'', ''quantitative'']),
     (''technology'',
       [''software'', ''hardware'', ''algorithm'', ''programming'', ''code'',
        ''system'', ''application'', ''platform'', ''network'', ''database'',
        ''cloud'', ''artificial intelligence'', ''machine learning'', ''cybersecurity'',
        ''blockchain'', ''api'', ''framework'', ''architecture'', ''deployment'']),
     (''healthcare'',
       [''medical'', ''patient'', ''diagnosis'', ''treatment'', ''clinical'',
        ''hospital'', ''physician'', ''nurse'', ''therapy'', ''medication'',
        ''disease'', ''symptom'', ''health'', ''care'', ''surgical'', ''pharmaceutical'',
        ''radiology'', ''pathology'', ''anatomy'', ''physiology'']),
     (''education'',
       [''teaching'', ''learning'', ''student'', ''curriculum'', ''course'',
        ''pedagogy'', ''instruction'', ''assessment'', ''academic'', ''university'',
        ''school'', ''education'', ''training'', ''classroom'', ''textbook'',
        ''syllabus'', ''enrollment'', ''degree'', ''diploma'', ''scholarship'']),
     (''business'',
       [''management'', ''strategy'', ''marketing'', ''sales'', ''customer'',
        ''product'', ''service'', ''business plan'', ''entrepreneurship'', ''startup'',
        ''operations'', ''supply chain'', ''vendor'', ''procurement'', ''logistics'',
        ''human resources'', ''employee'', ''organizational'', ''corporate'']),
     (''engineering'',
       [''design'', ''construction'', ''structural'', ''mechanical'', ''electrical'',
        ''civil'', ''chemical'', ''aerospace'', ''manufacturing'', ''CAD'',
        ''blueprint'', ''specifications'', ''materials'', ''testing'', ''prototype'',
        ''maintenance'', ''installation'', ''inspection'', ''quality control'']),
     (''arts'',
       [''creative'', ''artistic'', ''design'', ''visual'', ''performance'',
        ''music'', ''theater'', ''literature'', ''painting'', ''sculpture'',
        ''photography'', ''film'', ''media'', ''aesthetic'', ''exhibition'',
        ''gallery'', ''composition'', ''choreography'', ''narrative''])]"

section \<open>Classifier B: the keyword fallback (agents/text\_classification.py)\<close>

record text_analysis =
  ta_primary_domain :: "string option"
  ta_confidence :: "real option"
  ta_reasoning :: "string option"
  ta_keywords :: "string list option"
  ta_alternative_domains :: "string list option"
  ta_method :: "string option"
  ta_error :: "string option"

text \<open>
  The loop that fills \<open>domain_scores\<close>: one entry per catalogue domain, in catalogue
  order; the score is \<open>sum(1 for keyword in keywords if keyword.lower() in text_lower)\<close>.
\<close>

definition keyword_score :: "string list \<Rightarrow> string \<Rightarrow> nat" where
  "keyword_score keywords text_lower =
     length (filter (\<lambda>keyword. str_in (lower keyword) text_lower) keywords)"

definition domain_scores :: "catalog \<Rightarrow> string \<Rightarrow> (string \<times> nat) list" where
  "domain_scores domain_keywords text_lower =
     map (\<lambda>(domain, keywords). (domain, keyword_score keywords text_lower)) domain_keywords"

text \<open>
  \<open>sorted(domain_scores.items(), key=lambda x: x[1], reverse=True)\<close>. Python's sort is
  stable, also with \<open>reverse=True\<close>; a stable sort on the negated score computes the same
  list.
\<close>

definition sorted_domains :: "(string \<times> nat) list \<Rightarrow> (string \<times> nat) list" where
  "sorted_domains scores = sort_key (\<lambda>x. - int (snd x)) scores"

definition matched_keywords :: "string list \<Rightarrow> string \<Rightarrow> string list" where
  "matched_keywords keywords text_lower =
     take 10 (filter (\<lambda>keyword. str_in (lower keyword) text_lower) keywords)"

definition keyword_based_classification ::
  "catalog \<Rightarrow> string \<Rightarrow> string \<Rightarrow> py_error + text_analysis" where
  "keyword_based_classification domain_keywords text filename =
     (let text_lower = lower text;
          sorted_doms = sorted_domains (domain_scores domain_keywords text_lower)
      in case sorted_doms of
           [] \<Rightarrow> Inl (IndexError ''list index out of range'')
         | (primary_domain, primary_score) # _ \<Rightarrow>
             if primary_score = 0 then
               Inr \<lparr> ta_primary_domain = Some ''general'',
                     ta_confidence = Some 0.3,
                     ta_reasoning = Some ''No domain-specific keywords found'',
                     ta_keywords = Some [],
                     ta_alternative_domains = Some [],
                     ta_method = Some ''keyword_fallback'',
                     ta_error = None \<rparr>
             else
               (let total_score = sum_list (map snd sorted_doms);
                    confidence = (if total_score > 0
                                  then real primary_score / real total_score else 0.3);
                    confidence = min confidence 0.85
                in case map_of domain_keywords primary_domain of
                     None \<Rightarrow> Inl (KeyError primary_domain)
                   | Some keywords \<Rightarrow>
                       Inr \<lparr> ta_primary_domain = Some primary_domain,
                             ta_confidence = Some confidence,
                             ta_reasoning = Some (''Found '' @ str_nat primary_score
                                                  @ '' domain-specific keywords''),
                             ta_keywords = Some (matched_keywords keywords text_lower),
                             ta_alternative_domains =
                               Some (map fst (take 2 (drop 1 sorted_doms))),
                             ta_method = Some ''keyword_fallback'',
                             ta_error = None \<rparr>))"

text \<open>
  The spec's wording of the score, for comparison with \<open>keyword_score\<close>: the number of
  occurrences of each keyword-list entry in the lower-cased text, summed over the list.
  An occurrence is a position of the text at which the lower-cased entry starts.
\<close>

fun spec_occurrences :: "string \<Rightarrow> string \<Rightarrow> nat" where
  "spec_occurrences kw [] = 0"
| "spec_occurrences kw (c # cs) =
     (if startswith kw (c # cs) then 1 else 0) + spec_occurrences kw cs"

definition spec_occurrence_score :: "string list \<Rightarrow> string \<Rightarrow> nat" where
  "spec_occurrence_score keywords text_lower =
     sum_list (map (\<lambda>keyword. spec_occurrences (lower keyword) text_lower) keywords)"

definition spec_domain_scores :: "catalog \<Rightarrow> string \<Rightarrow> (string \<times> nat) list" where
  "spec_domain_scores domain_keywords text_lower =
     map (\<lambda>(domain, keywords). (domain, spec_occurrence_score keywords text_lower))
       domain_keywords"

section \<open>Classifier A: parsing the vision response (agents/vision\_analysis.py)\<close>

record vision_analysis =
  va_visual_domain_hints :: "string list option"
  va_document_type :: "string option"
  va_has_tables :: "bool option"
  va_has_charts :: "bool option"
  va_layout_type :: "string option"
  va_confidence :: "real option"
  va_raw_analysis :: "string option"
  va_error :: "string option"

definition domains_map :: catalog where
  "domains_map =
    [(''finance'', [''financial'', ''banking'', ''investment'', ''stock'', ''revenue'',
                    ''accounting'']),
     (''law'', [''legal'', ''court'', ''contract'', ''attorney'', ''lawsuit'', ''statute'']),
     (''science'', [''research'', ''experiment'', ''hypothesis'', ''scientific'', ''study'']),
     (''technology'', [''software'', ''code'', ''algorithm'', ''system'', ''technical'',
                       ''api'']),
     (''healthcare'', [''medical'', ''patient'', ''clinical'', ''diagnosis'', ''health'',
                       ''pharmaceutical'']),
     (''education'', [''academic'', ''university'', ''course'', ''student'', ''curriculum'']),
     (''business'', [''business'', ''management'', ''strategy'', ''corporate'',
                     ''marketing'']),
     (''engineering'', [''engineering'', ''design'', ''construction'', ''structural'',
                        ''mechanical''])]"

definition doc_types :: catalog where
  "doc_types =
    [(''report'', [''report'', ''annual report'', ''quarterly report'']),
     (''contract'', [''contract'', ''agreement'']),
     (''research_paper'', [''research paper'', ''academic paper'', ''journal article'']),
     (''presentation'', [''presentation'', ''slides'', ''powerpoint'']),
     (''invoice'', [''invoice'', ''bill'', ''receipt'']),
     (''manual'', [''manual'', ''guide'', ''handbook'']),
     (''specification'', [''specification'', ''spec sheet'', ''datasheet''])]"

text \<open>The loop of \<open>_extract_document_type\<close> returns at the first table entry that matches.\<close>

definition extract_document_type :: "string \<Rightarrow> string" where
  "extract_document_type text =
     (case find (\<lambda>(doc_type, keywords). any_in keywords text) doc_types of
        Some (doc_type, _) \<Rightarrow> doc_type
      | None \<Rightarrow> ''document'')"

text \<open>The loop over \<open>domains_map.items()\<close> appends every domain with a trigger word.\<close>

definition domain_hints :: "string \<Rightarrow> string list" where
  "domain_hints response_lower =
     map fst (filter (\<lambda>(domain, keywords). any_in keywords response_lower) domains_map)"

definition parse_vision_response :: "string \<Rightarrow> vision_analysis" where
  "parse_vision_response response_text =
     (let response_lower = lower response_text;
          hints = domain_hints response_lower;
          has_tables = any_in [''table'', ''tabular'', ''grid''] response_lower;
          has_charts = any_in [''chart'', ''graph'', ''diagram'', ''visualization'']
                         response_lower;
          layout_type =
            (if has_tables \<or> has_charts then ''visual-heavy''
             else if str_in ''text'' response_lower \<and> str_in ''heavy'' response_lower
                  then ''text-heavy''
             else ''mixed'');
          confidence = min (real (length hints) * 0.25) 1.0
      in \<lparr> va_visual_domain_hints = Some (take 3 hints),
           va_document_type = Some (extract_document_type response_lower),
           va_has_tables = Some has_tables,
           va_has_charts = Some has_charts,
           va_layout_type = Some layout_type,
           va_confidence = Some confidence,
           va_raw_analysis = Some (take 500 response_text),
           va_error = None \<rparr>)"

text \<open>
  The vision backend is an external service: \<open>vision_llm.ainvoke\<close> is a function of the
  encoded image (the prompt is a constant of the source) that returns the response text or
  raises. Every agent's \<open>process\<close> returns, beside its outcome, the list of requests it
  sent to its backend, in order.
\<close>

definition analyze_image ::
  "(string \<Rightarrow> py_error + string) \<Rightarrow> string \<Rightarrow> string \<Rightarrow> vision_analysis \<times> string list" where
  "analyze_image vision_llm_ainvoke image_base64 filename =
     (case vision_llm_ainvoke image_base64 of
        Inr analysis_text \<Rightarrow> (parse_vision_response analysis_text, [image_base64])
      | Inl e \<Rightarrow>
          (\<lparr> va_visual_domain_hints = Some [],
             va_document_type = Some ''unknown'',
             va_has_tables = Some False,
             va_has_charts = Some False,
             va_layout_type = Some ''text-heavy'',
             va_confidence = Some 0.0,
             va_raw_analysis = None,
             va_error = Some (str_of_error e) \<rparr>, [image_base64]))"

type_synonym metadata = "(string \<times> string) list"

record vision_input =
  vi_preview_images :: "string list option"
  vi_filename :: "string option"
  vi_metadata :: "metadata option"

definition vision_process ::
  "(string \<Rightarrow> py_error + string) \<Rightarrow> vision_input
     \<Rightarrow> (py_error + vision_analysis) \<times> string list" where
  "vision_process vision_llm_ainvoke input_data =
     (let preview_images = (case vi_preview_images input_data of None \<Rightarrow> [] | Some l \<Rightarrow> l);
          filename = (case vi_filename input_data of None \<Rightarrow> ''unknown'' | Some f \<Rightarrow> f)
      in case preview_images of
           [] \<Rightarrow>
             (Inr \<lparr> va_visual_domain_hints = Some [],
                    va_document_type = Some ''unknown'',
                    va_has_tables = Some False,
                    va_has_charts = Some False,
                    va_layout_type = Some ''unknown'',
                    va_confidence = Some 0.0,
                    va_raw_analysis = None,
                    va_error = None \<rparr>, [])
         | first_image # _ \<Rightarrow>
             (let (analysis, calls) = analyze_image vision_llm_ainvoke first_image filename
              in (Inr analysis, calls)))"

section \<open>The agent base class (agents/base.py)\<close>

text \<open>\<open>d.get(key, default)\<close> on an optional field.\<close>

definition dict_get :: "'a option \<Rightarrow> 'a \<Rightarrow> 'a" where
  "dict_get field dflt = (case field of None \<Rightarrow> dflt | Some v \<Rightarrow> v)"

record agent =
  ag_name :: string
  ag_model_name :: string
  execution_count :: nat

text \<open>
  The readings of the wall clock during one call of \<open>execute\<close>: \<open>time.time()\<close> on entry,
  \<open>time.time()\<close> when \<open>process\<close> has returned or raised, and
  \<open>datetime.now().isoformat()\<close>.
\<close>

record clock =
  t_start :: real
  t_end :: real
  now_iso :: string

record 'r agent_result =
  ar_agent_name :: string
  ar_success :: bool
  ar_result :: "'r option"
  ar_error :: "string option"
  ar_execution_time :: real
  ar_timestamp :: string

text \<open>
  \<open>process\<close> either returns a result or raises an \<open>Exception\<close>; \<open>execute\<close> wraps both
  outcomes. It returns the agent with its counter advanced, the envelope, and the backend
  requests \<open>process\<close> made. What is raised outside the class \<open>Exception\<close> (a cancelled
  task, an interpreter exit) is not caught by the source and is not modelled.
\<close>

definition execute ::
  "agent \<Rightarrow> clock \<Rightarrow> ('i \<Rightarrow> (py_error + 'r) \<times> 'c list) \<Rightarrow> 'i
     \<Rightarrow> agent \<times> 'r agent_result \<times> 'c list" where
  "execute self clk process input_data =
     (let start_time = t_start clk;
          self' = self\<lparr> execution_count := execution_count self + 1 \<rparr>;
          (outcome, calls) = process input_data;
          execution_time = t_end clk - start_time
      in case outcome of
           Inr result \<Rightarrow>
             (self',
              \<lparr> ar_agent_name = ag_name self,
                ar_success = True,
                ar_result = Some result,
                ar_error = None,
                ar_execution_time = execution_time,
                ar_timestamp = now_iso clk \<rparr>,
              calls)
         | Inl e \<Rightarrow>
             (self',
              \<lparr> ar_agent_name = ag_name self,
                ar_success = False,
                ar_result = None,
                ar_error = Some (str_of_error e),
                ar_execution_time = execution_time,
                ar_timestamp = now_iso clk \<rparr>,
              calls))"

section \<open>Classifier B: the agent (agents/text\_classification.py)\<close>

record text_input =
  ti_text_content :: "string option"
  ti_filename :: "string option"
  ti_metadata :: "metadata option"

record text_prompt_vars =
  tv_domain_descriptions :: string
  tv_text :: string
  tv_filename :: string

definition domain_descriptions :: "catalog \<Rightarrow> string" where
  "domain_descriptions domain_keywords =
     join [CHR 0x0A]
       (map (\<lambda>(domain, keywords). ''- '' @ domain @ '': '' @ join '', '' (take 5 keywords))
          domain_keywords)"

text \<open>
  The classification chain (prompt, model, JSON parser) is external: a function of the
  prompt variables that returns the parsed dictionary or raises.
\<close>

definition llm_classification ::
  "(text_prompt_vars \<Rightarrow> py_error + text_analysis) \<Rightarrow> catalog \<Rightarrow> string \<Rightarrow> string
     \<Rightarrow> (py_error + text_analysis) \<times> text_prompt_vars list" where
  "llm_classification chain_ainvoke domain_keywords text filename =
     (let vars = \<lparr> tv_domain_descriptions = domain_descriptions domain_keywords,
                   tv_text = text,
                   tv_filename = filename \<rparr>
      in case chain_ainvoke vars of
           Inl e \<Rightarrow> (Inl e, [vars])
         | Inr result \<Rightarrow>
             (Inr \<lparr> ta_primary_domain = Some (dict_get (ta_primary_domain result) ''general''),
                    ta_confidence = Some (dict_get (ta_confidence result) 0.5),
                    ta_reasoning = Some (dict_get (ta_reasoning result) []),
                    ta_keywords = Some (dict_get (ta_keywords result) []),
                    ta_alternative_domains =
                      Some (dict_get (ta_alternative_domains result) []),
                    ta_method = Some ''llm'',
                    ta_error = None \<rparr>, [vars]))"

definition text_process ::
  "(text_prompt_vars \<Rightarrow> py_error + text_analysis) \<Rightarrow> catalog \<Rightarrow> text_input
     \<Rightarrow> (py_error + text_analysis) \<times> text_prompt_vars list" where
  "text_process chain_ainvoke domain_keywords input_data =
     (let text_content = dict_get (ti_text_content input_data) [];
          filename = dict_get (ti_filename input_data) ''unknown''
      in if text_content = [] \<or> length (strip text_content) < 50 then
           (keyword_based_classification domain_keywords text_content filename, [])
         else
           (let text_sample = take 8000 text_content;
                (outcome, calls) =
                   llm_classification chain_ainvoke domain_keywords text_sample filename
            in case outcome of
                 Inr result \<Rightarrow> (Inr result, calls)
               | Inl e \<Rightarrow>
                   (keyword_based_classification domain_keywords text_content filename,
                    calls)))"

section \<open>The Reconciler (agents/domain\_router.py)\<close>

record decision =
  dc_final_domain :: "string option"
  dc_confidence :: "real option"
  dc_reasoning :: "string option"
  dc_agreement_level :: "string option"
  dc_primary_evidence :: "string option"
  dc_method :: "string option"
  dc_error :: "string option"

record router_input =
  ri_filename :: "string option"
  ri_vision_analysis :: "vision_analysis option"
  ri_text_analysis :: "text_analysis option"
  ri_metadata :: "metadata option"

record router_prompt_vars =
  rv_filename :: string
  rv_vision_domains :: string
  rv_doc_type :: string
  rv_has_tables :: bool
  rv_has_charts :: bool
  rv_vision_confidence :: real
  rv_text_domain :: string
  rv_text_confidence :: real
  rv_keywords :: string
  rv_text_reasoning :: string

definition empty_vision_analysis :: vision_analysis where
  "empty_vision_analysis =
     \<lparr> va_visual_domain_hints = None, va_document_type = None, va_has_tables = None,
       va_has_charts = None, va_layout_type = None, va_confidence = None,
       va_raw_analysis = None, va_error = None \<rparr>"

definition empty_text_analysis :: text_analysis where
  "empty_text_analysis =
     \<lparr> ta_primary_domain = None, ta_confidence = None, ta_reasoning = None,
       ta_keywords = None, ta_alternative_domains = None, ta_method = None,
       ta_error = None \<rparr>"

definition empty_decision :: decision where
  "empty_decision =
     \<lparr> dc_final_domain = None, dc_confidence = None, dc_reasoning = None,
       dc_agreement_level = None, dc_primary_evidence = None, dc_method = None,
       dc_error = None \<rparr>"

text \<open>
  \<open>repr_float\<close> is Python's conversion of a float to text in an f-string; it is a parameter.
\<close>

definition fallback_decision ::
  "(real \<Rightarrow> string) \<Rightarrow> vision_analysis \<Rightarrow> text_analysis \<Rightarrow> decision" where
  "fallback_decision repr_float vision_analysis text_analysis =
     (let text_domain = dict_get (ta_primary_domain text_analysis) ''general'';
          text_confidence = dict_get (ta_confidence text_analysis) 0.0;
          vision_domains = dict_get (va_visual_domain_hints vision_analysis) [];
          vision_confidence = dict_get (va_confidence vision_analysis) 0.0;
          (final_domain, confidence, agreement) =
            (if text_confidence > 0.6 then
               (text_domain, text_confidence * 0.8,
                if text_domain \<in> set vision_domains then ''medium'' else ''low'')
             else
               (case vision_domains of
                  first_hint # _ \<Rightarrow> (first_hint, vision_confidence * 0.7, ''low'')
                | [] \<Rightarrow> (''general'', 0.4, ''none'')))
      in \<lparr> dc_final_domain = Some final_domain,
           dc_confidence = Some confidence,
           dc_reasoning = Some (''Fallback decision based on text analysis (''
                                @ repr_float text_confidence @ '') and vision hints''),
           dc_agreement_level = Some agreement,
           dc_primary_evidence = Some ''Text content analysis weighted higher'',
           dc_method = Some ''fallback_weighted'',
           dc_error = None \<rparr>)"

text \<open>
  The arbitration chain is external: a function of the prompt variables that returns the
  parsed dictionary or raises. \<open>router_prompt\<close> is the dictionary of prompt variables that
  \<open>process\<close> builds for \<open>chain.ainvoke\<close>.
\<close>

definition router_prompt :: "router_input \<Rightarrow> router_prompt_vars" where
  "router_prompt input_data =
     (let filename = dict_get (ri_filename input_data) ''unknown'';
          vision_analysis = dict_get (ri_vision_analysis input_data) empty_vision_analysis;
          text_analysis = dict_get (ri_text_analysis input_data) empty_text_analysis;
          vision_domains = dict_get (va_visual_domain_hints vision_analysis) [];
          vision_confidence = dict_get (va_confidence vision_analysis) 0.0;
          doc_type = dict_get (va_document_type vision_analysis) ''unknown'';
          has_tables = dict_get (va_has_tables vision_analysis) False;
          has_charts = dict_get (va_has_charts vision_analysis) False;
          text_domain = dict_get (ta_primary_domain text_analysis) ''general'';
          text_confidence = dict_get (ta_confidence text_analysis) 0.0;
          keywords = dict_get (ta_keywords text_analysis) [];
          text_reasoning = dict_get (ta_reasoning text_analysis) []
      in \<lparr> rv_filename = filename,
           rv_vision_domains =
             (if vision_domains \<noteq> [] then join '', '' vision_domains
              else ''none detected''),
           rv_doc_type = doc_type,
           rv_has_tables = has_tables,
           rv_has_charts = has_charts,
           rv_vision_confidence = vision_confidence,
           rv_text_domain = text_domain,
           rv_text_confidence = text_confidence,
           rv_keywords = join '', '' (take 10 keywords),
           rv_text_reasoning = text_reasoning \<rparr>)"

definition router_process ::
  "(real \<Rightarrow> string) \<Rightarrow> (router_prompt_vars \<Rightarrow> py_error + decision) \<Rightarrow> router_input
     \<Rightarrow> (py_error + decision) \<times> router_prompt_vars list" where
  "router_process repr_float chain_ainvoke input_data =
     (let vision_analysis = dict_get (ri_vision_analysis input_data) empty_vision_analysis;
          text_analysis = dict_get (ri_text_analysis input_data) empty_text_analysis;
          vision_domains = dict_get (va_visual_domain_hints vision_analysis) [];
          vision_confidence = dict_get (va_confidence vision_analysis) 0.0;
          text_domain = dict_get (ta_primary_domain text_analysis) ''general'';
          text_confidence = dict_get (ta_confidence text_analysis) 0.0
      in if text_domain \<in> set vision_domains \<and> text_confidence > 0.7 then
           (Inr \<lparr> dc_final_domain = Some text_domain,
                  dc_confidence = Some ((text_confidence + vision_confidence) / 2),
                  dc_reasoning = Some (''Strong agreement between vision and text analysis on ''
                                       @ text_domain @ '' domain''),
                  dc_agreement_level = Some ''high'',
                  dc_primary_evidence = Some (''Both analyses indicated '' @ text_domain),
                  dc_method = Some ''quick_agreement'',
                  dc_error = None \<rparr>, [])
         else
           (let vars = router_prompt input_data
            in case chain_ainvoke vars of
                 Inr result \<Rightarrow> (Inr (result\<lparr> dc_method := Some ''llm_decision'' \<rparr>), [vars])
               | Inl e \<Rightarrow>
                   (Inr (fallback_decision repr_float vision_analysis text_analysis),
                    [vars])))"

section \<open>Intake and filing agents (agents/document\_intake.py, agents/file\_organization.py)\<close>

text \<open>
  The file system, the PDF extractors and the MCP file server are external; the agents
  reach them through the functions of the environment record below. Of the dictionary that
  the intake agent returns, the four entries that the workflow reads are kept.
\<close>

record intake_input =
  ii_file_path :: "string option"

record intake_data =
  id_metadata :: metadata
  id_text_content :: string
  id_text_preview :: string
  id_preview_images :: "string list"

definition intake_process ::
  "(string \<Rightarrow> bool) \<Rightarrow> (string \<Rightarrow> metadata) \<Rightarrow> (string \<Rightarrow> string) \<Rightarrow> (string \<Rightarrow> string list)
     \<Rightarrow> intake_input \<Rightarrow> (py_error + intake_data) \<times> string list" where
  "intake_process path_exists extract_metadata extract_text generate_preview_images input_data =
     (case ii_file_path input_data of
        None \<Rightarrow> (Inl (ValueError ''Invalid file path: None''), [])
      | Some file_path \<Rightarrow>
          if file_path = [] \<or> \<not> path_exists file_path then
            (Inl (ValueError (''Invalid file path: '' @ file_path)), [])
          else
            (let text_content = extract_text file_path
             in (Inr \<lparr> id_metadata = extract_metadata file_path,
                       id_text_content = text_content,
                       id_text_preview =
                         (if text_content \<noteq> [] then take 2000 text_content else []),
                       id_preview_images = generate_preview_images file_path \<rparr>,
                 [file_path])))"

text \<open>
  The entry \<open>destination\<close> of the filing agent's result is read by the workflow with
  \<open>.get('destination', '')\<close>, which tells a missing key from a key that holds \<open>None\<close>: the
  field is an option (the key) of an option (its value).
\<close>

record mcp_response =
  mr_success :: "bool option"
  mr_message :: "string option"
  mr_destination :: "string option"

datatype mcp_call =
    CreateFolder string
  | MoveFile string string string
  | CopyFile string string string

record org_input =
  oi_file_path :: "string option"
  oi_filename :: "string option"
  oi_domain :: "string option"
  oi_operation :: "string option"

record org_result =
  or_success :: "bool option"
  or_operation :: "string option"
  or_domain :: "string option"
  or_source :: "string option"
  or_destination :: "string option option"
  or_message :: "string option"
  or_error :: "string option"
  or_details :: "mcp_response option"

definition empty_org_result :: org_result where
  "empty_org_result =
     \<lparr> or_success = None, or_operation = None, or_domain = None, or_source = None,
       or_destination = None, or_message = None, or_error = None, or_details = None \<rparr>"

definition org_process ::
  "(string \<Rightarrow> bool) \<Rightarrow> (string \<Rightarrow> mcp_response)
     \<Rightarrow> (string \<Rightarrow> string \<Rightarrow> string \<Rightarrow> mcp_response)
     \<Rightarrow> (string \<Rightarrow> string \<Rightarrow> string \<Rightarrow> mcp_response)
     \<Rightarrow> org_input \<Rightarrow> (py_error + org_result) \<times> mcp_call list" where
  "org_process path_exists create_domain_folder move_file copy_file input_data =
     (let domain = dict_get (oi_domain input_data) ''general'';
          operation = dict_get (oi_operation input_data) ''copy''
      in case (oi_file_path input_data, oi_filename input_data) of
           (Some file_path, Some filename) \<Rightarrow>
             if file_path = [] \<or> filename = [] then
               (Inl (ValueError ''file_path and filename are required''), [])
             else if \<not> path_exists file_path then
               (Inl (FileNotFoundError (''File not found: '' @ file_path)), [])
             else
               (let folder_result = create_domain_folder domain
                in if mr_success folder_result \<noteq> Some True then
                     (Inr (empty_org_result
                            \<lparr> or_success := Some False,
                              or_error := Some ''Failed to create domain folder'',
                              or_details := Some folder_result \<rparr>),
                      [CreateFolder domain])
                   else
                     (let (result, call) =
                            (if operation = ''move''
                             then (move_file file_path domain filename,
                                   MoveFile file_path domain filename)
                             else (copy_file file_path domain filename,
                                   CopyFile file_path domain filename))
                      in if mr_success result = Some True then
                           (Inr (empty_org_result
                                  \<lparr> or_success := Some True,
                                    or_operation := Some operation,
                                    or_domain := Some domain,
                                    or_source := Some file_path,
                                    or_destination := Some (mr_destination result),
                                    or_message :=
                                      Some (''File '' @ operation @ ''d successfully'') \<rparr>),
                            [CreateFolder domain, call])
                         else
                           (Inr (empty_org_result
                                  \<lparr> or_success := Some False,
                                    or_error := mr_message result,
                                    or_details := Some result \<rparr>),
                            [CreateFolder domain, call])))
         | _ \<Rightarrow> (Inl (ValueError ''file_path and filename are required''), []))"

section \<open>The workflow (workflow/graph.py)\<close>

text \<open>
  \<open>DocumentState\<close> is a \<open>TypedDict\<close>; a key that has not been written yet is absent. A node
  returns a dictionary of the keys it writes, of the same type; the list under
  \<open>messages\<close> is appended to the state's list, every other key is overwritten. A key
  that holds \<open>None\<close> is not told apart from an absent key, and the metadata dictionary is
  an association list of strings.

  Each node returns the agent after the call, the dictionary of the keys it writes, and the
  backend requests made. Since \<open>execute\<close> returns an envelope for every outcome of
  \<open>process\<close>, the \<open>except\<close> clause of a node is reached only from the node's own
  dictionary accesses (a missing key, a missing confidence under the format \<open>:.2f\<close>);
  these are written out as branches.
\<close>

record document_state =
  st_file_path :: "string option"
  st_filename :: "string option"
  st_metadata :: "metadata option"
  st_text_content :: "string option"
  st_text_preview :: "string option"
  st_preview_images :: "string list option"
  st_vision_analysis :: "vision_analysis option"
  st_text_analysis :: "text_analysis option"
  st_final_decision :: "decision option"
  st_final_domain :: "string option"
  st_confidence :: "real option"
  st_organization_result :: "org_result option"
  st_output_path :: "string option"
  st_processing_stage :: "string option"
  st_error :: "string option"
  st_messages :: "string list"

definition no_update :: document_state where
  "no_update =
     \<lparr> st_file_path = None, st_filename = None, st_metadata = None, st_text_content = None,
       st_text_preview = None, st_preview_images = None, st_vision_analysis = None,
       st_text_analysis = None, st_final_decision = None, st_final_domain = None,
       st_confidence = None, st_organization_result = None, st_output_path = None,
       st_processing_stage = None, st_error = None, st_messages = [] \<rparr>"

definition write_key :: "'a option \<Rightarrow> 'a option \<Rightarrow> 'a option" where
  "write_key old new = (case new of None \<Rightarrow> old | Some v \<Rightarrow> Some v)"

definition apply_update :: "document_state \<Rightarrow> document_state \<Rightarrow> document_state" where
  "apply_update state upd =
     \<lparr> st_file_path = write_key (st_file_path state) (st_file_path upd),
       st_filename = write_key (st_filename state) (st_filename upd),
       st_metadata = write_key (st_metadata state) (st_metadata upd),
       st_text_content = write_key (st_text_content state) (st_text_content upd),
       st_text_preview = write_key (st_text_preview state) (st_text_preview upd),
       st_preview_images = write_key (st_preview_images state) (st_preview_images upd),
       st_vision_analysis = write_key (st_vision_analysis state) (st_vision_analysis upd),
       st_text_analysis = write_key (st_text_analysis state) (st_text_analysis upd),
       st_final_decision = write_key (st_final_decision state) (st_final_decision upd),
       st_final_domain = write_key (st_final_domain state) (st_final_domain upd),
       st_confidence = write_key (st_confidence state) (st_confidence upd),
       st_organization_result =
         write_key (st_organization_result state) (st_organization_result upd),
       st_output_path = write_key (st_output_path state) (st_output_path upd),
       st_processing_stage = write_key (st_processing_stage state) (st_processing_stage upd),
       st_error = write_key (st_error state) (st_error upd),
       st_messages = st_messages state @ st_messages upd \<rparr>"

text \<open>
  The external collaborators of one workflow instance. \<open>format_2f\<close> is the f-string
  conversion \<open>:.2f\<close> of a float, \<open>path_name\<close> is \<open>Path(p).name\<close>.
\<close>

record environment =
  env_path_exists :: "string \<Rightarrow> bool"
  env_extract_metadata :: "string \<Rightarrow> metadata"
  env_extract_text :: "string \<Rightarrow> string"
  env_generate_preview_images :: "string \<Rightarrow> string list"
  env_vision_llm_ainvoke :: "string \<Rightarrow> py_error + string"
  env_text_chain_ainvoke :: "text_prompt_vars \<Rightarrow> py_error + text_analysis"
  env_router_chain_ainvoke :: "router_prompt_vars \<Rightarrow> py_error + decision"
  env_mcp_create_domain_folder :: "string \<Rightarrow> mcp_response"
  env_mcp_move_file :: "string \<Rightarrow> string \<Rightarrow> string \<Rightarrow> mcp_response"
  env_mcp_copy_file :: "string \<Rightarrow> string \<Rightarrow> string \<Rightarrow> mcp_response"
  env_repr_float :: "real \<Rightarrow> string"
  env_format_2f :: "real \<Rightarrow> string"
  env_path_name :: "string \<Rightarrow> string"

text \<open>How an f-string prints an optional string, and \<open>str(KeyError(key))\<close>.\<close>

definition str_opt :: "string option \<Rightarrow> string" where
  "str_opt v = (case v of None \<Rightarrow> ''None'' | Some s \<Rightarrow> s)"

definition key_error_str :: "string \<Rightarrow> string" where
  "key_error_str k = [CHR 0x27] @ k @ [CHR 0x27]"

definition intake_failed :: "string \<Rightarrow> document_state" where
  "intake_failed msg =
     no_update\<lparr> st_error := Some msg, st_processing_stage := Some ''intake_failed'' \<rparr>"

definition intake_node ::
  "environment \<Rightarrow> agent \<Rightarrow> clock \<Rightarrow> document_state
     \<Rightarrow> agent \<times> document_state \<times> string list" where
  "intake_node env self clk state =
     (case st_file_path state of
        None \<Rightarrow> (self, intake_failed (key_error_str ''file_path''), [])
      | Some file_path \<Rightarrow>
          (let (self', result, calls) =
                 execute self clk
                   (intake_process (env_path_exists env) (env_extract_metadata env)
                      (env_extract_text env) (env_generate_preview_images env))
                   \<lparr> ii_file_path = Some file_path \<rparr>
           in if ar_success result then
                (case (ar_result result, st_filename state) of
                   (Some data, Some filename) \<Rightarrow>
                     (self',
                      no_update
                        \<lparr> st_metadata := Some (id_metadata data),
                          st_text_content := Some (id_text_content data),
                          st_text_preview := Some (id_text_preview data),
                          st_preview_images := Some (id_preview_images data),
                          st_processing_stage := Some ''intake_complete'',
                          st_messages := [''Intake completed for '' @ filename] \<rparr>,
                      calls)
                 | (None, _) \<Rightarrow> (self', intake_failed (key_error_str ''result''), calls)
                 | (_, None) \<Rightarrow> (self', intake_failed (key_error_str ''filename''), calls))
              else
                (self', intake_failed (dict_get (ar_error result) ''Intake failed''), calls)))"

definition vision_node ::
  "environment \<Rightarrow> agent \<Rightarrow> clock \<Rightarrow> document_state
     \<Rightarrow> agent \<times> document_state \<times> string list" where
  "vision_node env self clk state =
     (let (self', result, calls) =
            execute self clk (vision_process (env_vision_llm_ainvoke env))
              \<lparr> vi_preview_images = Some (dict_get (st_preview_images state) []),
                vi_filename = st_filename state,
                vi_metadata = Some (dict_get (st_metadata state) []) \<rparr>
      in if ar_success result then
           (case ar_result result of
              Some analysis \<Rightarrow>
                (self',
                 no_update\<lparr> st_vision_analysis := Some analysis,
                            st_messages := [''Vision analysis completed''] \<rparr>,
                 calls)
            | None \<Rightarrow>
                (self',
                 no_update
                   \<lparr> st_vision_analysis :=
                       Some (empty_vision_analysis\<lparr> va_error := Some (key_error_str ''result'') \<rparr>),
                     st_messages := [''Vision analysis error: '' @ key_error_str ''result''] \<rparr>,
                 calls))
         else
           (self',
            no_update
              \<lparr> st_vision_analysis :=
                  Some (empty_vision_analysis
                         \<lparr> va_visual_domain_hints := Some [],
                           va_confidence := Some 0.0,
                           va_error := ar_error result \<rparr>),
                st_messages := [''Vision analysis failed, continuing with text only''] \<rparr>,
            calls))"

definition text_failed :: "string option \<Rightarrow> text_analysis" where
  "text_failed err =
     empty_text_analysis
       \<lparr> ta_primary_domain := Some ''general'', ta_confidence := Some 0.3, ta_error := err \<rparr>"

definition text_node ::
  "environment \<Rightarrow> agent \<Rightarrow> clock \<Rightarrow> document_state
     \<Rightarrow> agent \<times> document_state \<times> text_prompt_vars list" where
  "text_node env self clk state =
     (let (self', result, calls) =
            execute self clk (text_process (env_text_chain_ainvoke env) DOMAIN_KEYWORDS)
              \<lparr> ti_text_content = Some (dict_get (st_text_content state) []),
                ti_filename = st_filename state,
                ti_metadata = Some (dict_get (st_metadata state) []) \<rparr>
      in if ar_success result then
           (case ar_result result of
              Some analysis \<Rightarrow>
                (self',
                 no_update\<lparr> st_text_analysis := Some analysis,
                            st_messages := [''Text classification completed''] \<rparr>,
                 calls)
            | None \<Rightarrow>
                (self',
                 no_update
                   \<lparr> st_text_analysis := Some (text_failed (Some (key_error_str ''result''))),
                     st_messages :=
                       [''Text classification error: '' @ key_error_str ''result''] \<rparr>,
                 calls))
         else
           (self',
            no_update\<lparr> st_text_analysis := Some (text_failed (ar_error result)),
                       st_messages := [''Text classification failed''] \<rparr>,
            calls))"

definition router_error :: "string \<Rightarrow> document_state" where
  "router_error msg =
     no_update
       \<lparr> st_final_decision := Some (empty_decision\<lparr> dc_error := Some msg \<rparr>),
         st_final_domain := Some ''general'',
         st_confidence := Some 0.3,
         st_messages := [''Router error: '' @ msg] \<rparr>"

definition router_node ::
  "environment \<Rightarrow> agent \<Rightarrow> clock \<Rightarrow> document_state
     \<Rightarrow> agent \<times> document_state \<times> router_prompt_vars list" where
  "router_node env self clk state =
     (let vision_analysis = dict_get (st_vision_analysis state) empty_vision_analysis;
          text_analysis = dict_get (st_text_analysis state) empty_text_analysis
      in if vision_analysis = empty_vision_analysis \<or> text_analysis = empty_text_analysis
         then (self, no_update, [])
         else
           (let (self', result, calls) =
                  execute self clk
                    (router_process (env_repr_float env) (env_router_chain_ainvoke env))
                    \<lparr> ri_filename = st_filename state,
                      ri_vision_analysis = Some vision_analysis,
                      ri_text_analysis = Some text_analysis,
                      ri_metadata = Some (dict_get (st_metadata state) []) \<rparr>
            in if ar_success result then
                 (case ar_result result of
                    None \<Rightarrow> (self', router_error (key_error_str ''result''), calls)
                  | Some decision \<Rightarrow>
                      (case dc_confidence decision of
                         None \<Rightarrow>
                           (self',
                            router_error
                              ''unsupported format string passed to NoneType.__format__'',
                            calls)
                       | Some c \<Rightarrow>
                           (self',
                            no_update
                              \<lparr> st_final_decision := Some decision,
                                st_final_domain :=
                                  Some (dict_get (dc_final_domain decision) ''general''),
                                st_confidence := Some c,
                                st_messages :=
                                  [''Classified as '' @ str_opt (dc_final_domain decision)
                                   @ '' with '' @ env_format_2f env c @ '' confidence''] \<rparr>,
                            calls)))
               else
                 (self',
                  no_update
                    \<lparr> st_final_decision := Some (empty_decision\<lparr> dc_error := ar_error result \<rparr>),
                      st_final_domain :=
                        Some (dict_get (ta_primary_domain text_analysis) ''general''),
                      st_confidence := Some 0.5,
                      st_messages := [''Router failed, using text classification''] \<rparr>,
                  calls)))"

definition organization_failed :: "string option \<Rightarrow> string \<Rightarrow> document_state" where
  "organization_failed err msg =
     no_update
       \<lparr> st_organization_result := Some (empty_org_result\<lparr> or_error := err \<rparr>),
         st_processing_stage := Some ''organization_failed'',
         st_error := Some msg \<rparr>"

definition organization_node ::
  "environment \<Rightarrow> agent \<Rightarrow> clock \<Rightarrow> document_state
     \<Rightarrow> agent \<times> document_state \<times> mcp_call list" where
  "organization_node env self clk state =
     (case st_file_path state of
        None \<Rightarrow>
          (self,
           organization_failed (Some (key_error_str ''file_path'')) (key_error_str ''file_path''),
           [])
      | Some file_path \<Rightarrow>
          (case st_filename state of
             None \<Rightarrow>
               (self,
                organization_failed (Some (key_error_str ''filename''))
                  (key_error_str ''filename''),
                [])
           | Some filename \<Rightarrow>
               (let (self', result, calls) =
                      execute self clk
                        (org_process (env_path_exists env) (env_mcp_create_domain_folder env)
                           (env_mcp_move_file env) (env_mcp_copy_file env))
                        \<lparr> oi_file_path = Some file_path,
                          oi_filename = Some filename,
                          oi_domain = Some (dict_get (st_final_domain state) ''general''),
                          oi_operation = Some ''copy'' \<rparr>
                in if ar_success result then
                     (case ar_result result of
                        None \<Rightarrow>
                          (self',
                           organization_failed (Some (key_error_str ''result''))
                             (key_error_str ''result''),
                           calls)
                      | Some org_res \<Rightarrow>
                          (self',
                           no_update
                             \<lparr> st_organization_result := Some org_res,
                               st_output_path := dict_get (or_destination org_res) (Some []),
                               st_processing_stage := Some ''completed'',
                               st_messages :=
                                 [''File organized to '' @ str_opt (st_final_domain state)
                                  @ '' folder''] \<rparr>,
                           calls))
                   else
                     (self',
                      organization_failed (ar_error result)
                        (dict_get (ar_error result) ''Organization failed''),
                      calls))))"

definition error_node :: "document_state \<Rightarrow> document_state" where
  "error_node state =
     no_update
       \<lparr> st_processing_stage := Some ''failed'',
         st_messages := [''Processing failed: '' @ str_opt (st_error state)] \<rparr>"

definition check_intake_success :: "document_state \<Rightarrow> string" where
  "check_intake_success state =
     (case st_error state of
        None \<Rightarrow> ''success''
      | Some e \<Rightarrow> if e = [] then ''success'' else ''error'')"

text \<open>
  The graph of \<open>_build_graph\<close>, as the engine runs it. The entry node is \<open>intake\<close>. Its
  plain edges lead to \<open>vision_analysis\<close> and \<open>text_classification\<close>, which therefore run
  whatever the routing function answers; its conditional edges add \<open>error_handler\<close> when
  \<open>_check_intake_success\<close> answers \<open>error\<close>. The nodes of this step read the state after the
  intake and write disjoint keys, except \<open>messages\<close>, so that their order shows only in the
  order of the messages. Then \<open>domain_router\<close> runs, the target of both classifiers, then
  \<open>file_organization\<close>, then the graph ends. No node raises, so that the run returns the
  final state. Each node is called on its own agent and clock readings; the agents after
  the run are not returned.
\<close>

record workflow_agents =
  wf_intake_agent :: agent
  wf_vision_agent :: agent
  wf_text_agent :: agent
  wf_router_agent :: agent
  wf_org_agent :: agent

record workflow_clocks =
  ck_intake :: clock
  ck_vision :: clock
  ck_text :: clock
  ck_router :: clock
  ck_org :: clock

definition graph_ainvoke ::
  "environment \<Rightarrow> workflow_agents \<Rightarrow> workflow_clocks \<Rightarrow> document_state
     \<Rightarrow> py_error + document_state" where
  "graph_ainvoke env agents clocks initial_state =
     (let intake_upd =
            fst (snd (intake_node env (wf_intake_agent agents) (ck_intake clocks)
                        initial_state));
          after_intake = apply_update initial_state intake_upd;
          vision_upd =
            fst (snd (vision_node env (wf_vision_agent agents) (ck_vision clocks)
                        after_intake));
          text_upd =
            fst (snd (text_node env (wf_text_agent agents) (ck_text clocks) after_intake));
          after_classifiers = apply_update (apply_update after_intake vision_upd) text_upd;
          after_analysis =
            (if check_intake_success after_intake = ''error''
             then apply_update after_classifiers (error_node after_intake)
             else after_classifiers);
          router_upd =
            fst (snd (router_node env (wf_router_agent agents) (ck_router clocks)
                        after_analysis));
          after_routing = apply_update after_analysis router_upd;
          org_upd =
            fst (snd (organization_node env (wf_org_agent agents) (ck_org clocks)
                        after_routing))
      in Inr (apply_update after_routing org_upd))"

record pipeline_result =
  pr_success :: bool
  pr_filename :: "string option"
  pr_domain :: "string option"
  pr_confidence :: "real option"
  pr_output_path :: "string option"
  pr_final_decision :: "decision option"
  pr_messages :: "string list option"
  pr_error :: "string option"

text \<open>
  \<open>process_document\<close> hands the initial state to the compiled graph: \<open>app_ainvoke\<close> is
  the graph's \<open>ainvoke\<close>, which returns the final state or raises. It is a parameter, to
  be instantiated with \<open>graph_ainvoke\<close>, so that the two branches of \<open>process_document\<close>
  can be stated for whatever the graph returns.
\<close>

definition process_document ::
  "(string \<Rightarrow> string) \<Rightarrow> (document_state \<Rightarrow> py_error + document_state) \<Rightarrow> string
     \<Rightarrow> pipeline_result" where
  "process_document path_name app_ainvoke file_path =
     (let initial_state =
            no_update\<lparr> st_file_path := Some file_path,
                       st_filename := Some (path_name file_path),
                       st_messages := [] \<rparr>
      in case app_ainvoke initial_state of
           Inr final_state \<Rightarrow>
             \<lparr> pr_success = (st_processing_stage final_state = Some ''completed''),
               pr_filename = st_filename final_state,
               pr_domain = st_final_domain final_state,
               pr_confidence = st_confidence final_state,
               pr_output_path = st_output_path final_state,
               pr_final_decision = st_final_decision final_state,
               pr_messages = Some (st_messages final_state),
               pr_error = None \<rparr>
         | Inl e \<Rightarrow>
             \<lparr> pr_success = False,
               pr_filename = Some (path_name file_path),
               pr_domain = None,
               pr_confidence = None,
               pr_output_path = None,
               pr_final_decision = None,
               pr_messages = None,
               pr_error = Some (str_of_error e) \<rparr>)"

section \<open>The declared domain tags (database/models.py)\<close>

text \<open>The values of the enumeration \<open>DocumentDomain\<close>, in the order of its declaration.\<close>

definition domain_tags :: "string list" where
  "domain_tags =
     [''finance'', ''law'', ''science'', ''technology'', ''healthcare'', ''education'',
      ''business'', ''engineering'', ''arts'', ''general'']"

section \<open>Predicates used by the statements below\<close>

text \<open>A confidence entry of a result dictionary is in range when, if present, it lies in [0, 1].\<close>

definition confidence_in_range :: "real option \<Rightarrow> bool" where
  "confidence_in_range c = (case c of None \<Rightarrow> True | Some x \<Rightarrow> 0 \<le> x \<and> x \<le> 1)"

text \<open>
  The two confidence entries of a state or of a node's update: the one under \<open>confidence\<close>
  and the one of the decision record under \<open>final_decision\<close>.
\<close>

definition state_confidences_in_range :: "document_state \<Rightarrow> bool" where
  "state_confidences_in_range state =
     (confidence_in_range (st_confidence state)
      \<and> (case st_final_decision state of
            None \<Rightarrow> True
          | Some d \<Rightarrow> confidence_in_range (dc_confidence d)))"

text \<open>
  The spec's wording of the relation between the two entries of a parsed vision record:
  at most three domain hints, and a confidence of a quarter per domain hint of the record,
  capped at 1.
\<close>

definition spec_hint_confidence :: "vision_analysis \<Rightarrow> bool" where
  "spec_hint_confidence r =
     (case (va_visual_domain_hints r, va_confidence r) of
        (Some hints, Some c) \<Rightarrow> length hints \<le> 3 \<and> c = min (0.25 * real (length hints)) 1.0
      | _ \<Rightarrow> False)"

text \<open>
  The spec's wording of the keywords entry of the fallback's result, for comparison with
  \<open>matched_keywords\<close>: the first ten entries of the keyword list that occur in the text as
  they are written.
\<close>

definition spec_literal_keywords :: "string list \<Rightarrow> string \<Rightarrow> string list" where
  "spec_literal_keywords keywords text_content =
     take 10 (filter (\<lambda>keyword. str_in keyword text_content) keywords)"

section \<open>Properties of the keyword fallback\<close>

lemma keyword_score_card:
  "keyword_score keywords tlow
     = card {i. i < length keywords \<and> str_in (lower (keywords ! i)) tlow}"
  unfolding keyword_score_def by (rule length_filter_conv_card)

lemma scored_catalog_lookup:
  assumes "distinct (map fst cat)" and "(d, kws) \<in> set cat"
  shows "map_of (map (\<lambda>(domain, keywords). (domain, f keywords)) cat) d = Some (f kws)"
proof -
  have "map fst (map (\<lambda>(domain, keywords). (domain, f keywords)) cat) = map fst cat"
    by (induction cat) (auto split: prod.splits)
  then have "distinct (map fst (map (\<lambda>(domain, keywords). (domain, f keywords)) cat))"
    using assms(1) by (simp only:)
  moreover have "(d, f kws) \<in> set (map (\<lambda>(domain, keywords). (domain, f keywords)) cat)"
    using assms(2) by force
  ultimately show ?thesis by simp
qed

lemma domain_scores_lookup:
  assumes "distinct (map fst cat)" and "(d, kws) \<in> set cat"
  shows "map_of (domain_scores cat tlow) d = Some (keyword_score kws tlow)"
  unfolding domain_scores_def using assms by (rule scored_catalog_lookup)

lemma spec_domain_scores_lookup:
  assumes "distinct (map fst cat)" and "(d, kws) \<in> set cat"
  shows "map_of (spec_domain_scores cat tlow) d = Some (spec_occurrence_score kws tlow)"
  unfolding spec_domain_scores_def using assms by (rule scored_catalog_lookup)

lemma sorted_domains_descending:
  "sorted_wrt (\<lambda>a b. snd b \<le> snd a) (sorted_domains scores)"
proof -
  have "sorted (map (\<lambda>x. - int (snd x)) (sorted_domains scores))"
    unfolding sorted_domains_def by (rule sorted_sort_key)
  then have "sorted_wrt (\<lambda>a b. - int (snd a) \<le> - int (snd b)) (sorted_domains scores)"
    by (simp add: sorted_map)
  then show ?thesis
    by (rule sorted_wrt_mono_rel [rotated]) simp
qed

lemma sorted_domains_stable:
  "filter (\<lambda>x. snd x = k) (sorted_domains scores) = filter (\<lambda>x. snd x = k) scores"
proof -
  have "filter (\<lambda>y. - int (snd y) = - int k) (sort_key (\<lambda>x. - int (snd x)) scores)
        = filter (\<lambda>y. - int (snd y) = - int k) scores"
    by (rule sort_key_stable)
  then show ?thesis unfolding sorted_domains_def by simp
qed

lemma sorted_domains_mset: "mset (sorted_domains scores) = mset scores"
  unfolding sorted_domains_def by simp

lemma domain_scores_length: "length (domain_scores cat tlow) = length cat"
  unfolding domain_scores_def by simp

lemma domain_scores_fst: "map fst (domain_scores cat tlow) = map fst cat"
  unfolding domain_scores_def by (induction cat) auto

lemma sorted_domains_length: "length (sorted_domains scores) = length scores"
  unfolding sorted_domains_def by simp

lemma sorted_domains_set: "set (sorted_domains scores) = set scores"
  unfolding sorted_domains_def by simp

lemma ranked_domain_in_catalog:
  assumes "(d, s) \<in> set (sorted_domains (domain_scores cat tlow))"
  shows "\<exists>kws. map_of cat d = Some kws"
proof -
  from assms have "d \<in> fst ` set (domain_scores cat tlow)"
    by (force simp: sorted_domains_set)
  then have "d \<in> set (map fst (domain_scores cat tlow))" by simp
  then have "d \<in> fst ` set cat" by (simp add: domain_scores_fst)
  then show ?thesis by (metis map_of_eq_None_iff not_Some_eq)
qed

lemma member_le_sum_list:
  fixes xs :: "nat list"
  shows "x \<in> set xs \<Longrightarrow> x \<le> sum_list xs"
  by (induction xs) auto

lemma catalog_keys_distinct: "distinct (map fst DOMAIN_KEYWORDS)"
  by (simp add: DOMAIN_KEYWORDS_def)

lemma catalog_length: "length DOMAIN_KEYWORDS = 9"
  by (simp add: DOMAIN_KEYWORDS_def)

lemma finance_in_catalog:
  "(''finance'',
     [''financial'', ''banking'', ''investment'', ''stock'', ''bond'', ''portfolio'',
      ''accounting'', ''audit'', ''revenue'', ''profit'', ''loss'', ''balance sheet'',
      ''income statement'', ''cash flow'', ''equity'', ''asset'', ''liability'',
      ''fiscal'', ''monetary'', ''securities'', ''derivatives'', ''hedge fund''])
   \<in> set DOMAIN_KEYWORDS"
  by (simp add: DOMAIN_KEYWORDS_def)

lemma finance_score_stock_stock:
  "keyword_score
     [''financial'', ''banking'', ''investment'', ''stock'', ''bond'', ''portfolio'',
      ''accounting'', ''audit'', ''revenue'', ''profit'', ''loss'', ''balance sheet'',
      ''income statement'', ''cash flow'', ''equity'', ''asset'', ''liability'',
      ''fiscal'', ''monetary'', ''securities'', ''derivatives'', ''hedge fund'']
     (lower ''stock stock'') = 1"
  by code_simp

lemma finance_occurrences_stock_stock:
  "spec_occurrence_score
     [''financial'', ''banking'', ''investment'', ''stock'', ''bond'', ''portfolio'',
      ''accounting'', ''audit'', ''revenue'', ''profit'', ''loss'', ''balance sheet'',
      ''income statement'', ''cash flow'', ''equity'', ''asset'', ''liability'',
      ''fiscal'', ''monetary'', ''securities'', ''derivatives'', ''hedge fund'']
     (lower ''stock stock'') = 2"
  by code_simp

text \<open>
  Claim C3, as amended. The score of a domain is the number of entries of its keyword
  list whose lower-cased form occurs at least once in the lower-cased text (an entry that
  occurs several times counts once). The ranking is a rearrangement of the scored domains,
  in descending order of score, and domains with equal scores keep the order of the
  catalogue's declaration.
\<close>

theorem keyword_scores_and_ranking:
  assumes "distinct (map fst domain_keywords)"
    and "(domain, keywords) \<in> set domain_keywords"
  shows "map_of (domain_scores domain_keywords (lower text)) domain
           = Some (card {i. i < length keywords
                            \<and> str_in (lower (keywords ! i)) (lower text)})
       \<and> mset (sorted_domains (domain_scores domain_keywords (lower text)))
           = mset (domain_scores domain_keywords (lower text))
       \<and> sorted_wrt (\<lambda>a b. snd b \<le> snd a)
           (sorted_domains (domain_scores domain_keywords (lower text)))
       \<and> filter (\<lambda>x. snd x = k) (sorted_domains (domain_scores domain_keywords (lower text)))
           = filter (\<lambda>x. snd x = k) (domain_scores domain_keywords (lower text))"
  using domain_scores_lookup [OF assms] keyword_score_card sorted_domains_mset
    sorted_domains_descending sorted_domains_stable
  by simp

theorem keyword_scores_and_ranking_witness:
  "distinct (map fst DOMAIN_KEYWORDS)
   \<and> (''finance'',
       [''financial'', ''banking'', ''investment'', ''stock'', ''bond'', ''portfolio'',
        ''accounting'', ''audit'', ''revenue'', ''profit'', ''loss'', ''balance sheet'',
        ''income statement'', ''cash flow'', ''equity'', ''asset'', ''liability'',
        ''fiscal'', ''monetary'', ''securities'', ''derivatives'', ''hedge fund''])
      \<in> set DOMAIN_KEYWORDS
   \<and> map_of (domain_scores DOMAIN_KEYWORDS (lower ''stock stock'')) ''finance'' = Some 1
   \<and> sorted_wrt (\<lambda>a b. snd b \<le> snd a)
       (sorted_domains (domain_scores DOMAIN_KEYWORDS (lower ''stock stock'')))"
  using keyword_scores_and_ranking
          [OF catalog_keys_distinct finance_in_catalog, of "''stock stock''" 1]
    catalog_keys_distinct finance_in_catalog
    finance_score_stock_stock [unfolded keyword_score_card]
  by simp

text \<open>
  Claim C3 as stated fails: in \<open>stock stock\<close> the finance keyword \<open>stock\<close> occurs twice, so
  the sum of occurrence counts is 2, and the source scores the domain 1.
\<close>

theorem occurrence_count_counterexample:
  "domain_scores DOMAIN_KEYWORDS (lower ''stock stock'')
     \<noteq> spec_domain_scores DOMAIN_KEYWORDS (lower ''stock stock'')"
proof
  assume "domain_scores DOMAIN_KEYWORDS (lower ''stock stock'')
            = spec_domain_scores DOMAIN_KEYWORDS (lower ''stock stock'')"
  then have "map_of (domain_scores DOMAIN_KEYWORDS (lower ''stock stock'')) ''finance''
               = map_of (spec_domain_scores DOMAIN_KEYWORDS (lower ''stock stock'')) ''finance''"
    by simp
  then show False
    unfolding domain_scores_lookup [OF catalog_keys_distinct finance_in_catalog]
      spec_domain_scores_lookup [OF catalog_keys_distinct finance_in_catalog]
      finance_score_stock_stock finance_occurrences_stock_stock
    by simp
qed

lemma keyword_fallback_unfolded:
  assumes "3 \<le> length domain_keywords"
  shows "let ranked = sorted_domains (domain_scores domain_keywords (lower text));
             top_score = snd (ranked ! 0)
         in keyword_based_classification domain_keywords text filename =
            (if top_score = 0 then
               Inr \<lparr> ta_primary_domain = Some ''general'',
                     ta_confidence = Some 0.3,
                     ta_reasoning = Some ''No domain-specific keywords found'',
                     ta_keywords = Some [],
                     ta_alternative_domains = Some [],
                     ta_method = Some ''keyword_fallback'',
                     ta_error = None \<rparr>
             else
               Inr \<lparr> ta_primary_domain = Some (fst (ranked ! 0)),
                     ta_confidence =
                       Some (min (real top_score / real (sum_list (map snd ranked))) 0.85),
                     ta_reasoning = Some (''Found '' @ str_nat top_score
                                          @ '' domain-specific keywords''),
                     ta_keywords =
                       Some (take 10 (filter (\<lambda>keyword. str_in (lower keyword) (lower text))
                                        (the (map_of domain_keywords (fst (ranked ! 0)))))),
                     ta_alternative_domains = Some [fst (ranked ! 1), fst (ranked ! 2)],
                     ta_method = Some ''keyword_fallback'',
                     ta_error = None \<rparr>)"
proof -
  define ranked where "ranked = sorted_domains (domain_scores domain_keywords (lower text))"
  have len: "length ranked = length domain_keywords"
    unfolding ranked_def by (simp add: sorted_domains_length domain_scores_length)
  with assms obtain a b c rest where ranked: "ranked = a # b # c # rest"
    by (metis Suc_le_length_iff numeral_3_eq_3)
  obtain d s where a: "a = (d, s)" by (cases a)
  have "(d, s) \<in> set ranked" using ranked a by simp
  then obtain kws where kws: "map_of domain_keywords d = Some kws"
    unfolding ranked_def using ranked_domain_in_catalog by blast
  have "s \<in> set (map snd ranked)" using ranked a by simp
  then have le: "s \<le> sum_list (map snd ranked)" by (rule member_le_sum_list)
  show ?thesis
  proof (cases "s = 0")
    case True
    then show ?thesis
      using ranked a
      by (simp add: keyword_based_classification_def Let_def ranked_def [symmetric])
  next
    case False
    with le have pos: "0 < sum_list (map snd ranked)" by simp
    show ?thesis
      using False pos kws
      unfolding keyword_based_classification_def Let_def ranked_def [symmetric]
      by (simp add: ranked a matched_keywords_def)
  qed
qed

lemma law_example_ranking:
  "sorted_domains (domain_scores DOMAIN_KEYWORDS (lower ''Court audit: LEGAL appeal''))
   = [(''law'', 3), (''finance'', 1), (''science'', 0), (''technology'', 0),
      (''healthcare'', 0), (''education'', 0), (''business'', 0),
      (''engineering'', 0), (''arts'', 0)]"
  by code_simp

lemma law_example_matches:
  "take 10 (filter (\<lambda>keyword. str_in (lower keyword) (lower ''Court audit: LEGAL appeal''))
     (the (map_of DOMAIN_KEYWORDS ''law''))) = [''legal'', ''court'', ''appeal'']"
  by code_simp

lemma law_example_literal_matches:
  "spec_literal_keywords (the (map_of DOMAIN_KEYWORDS ''law'')) ''Court audit: LEGAL appeal''
   = [''appeal'']"
  by code_simp

lemma str_nat_3: "str_nat 3 = ''3''"
  by code_simp

text \<open>
  Claim C4, as amended. On a catalogue of at least three domains the keyword fallback
  never raises. When the top score is 0 it returns the \<open>general\<close> record with confidence
  0.3 and no keywords or alternatives. Otherwise the primary domain is the top-ranked one,
  the confidence is the top score over the sum of all scores, capped at 0.85, the
  alternatives are the domains ranked second and third, and the keywords are the first ten
  entries of the winning domain's list, in the list's order, whose lower-cased form occurs
  in the lower-cased text: the match is the case-insensitive one of the scoring, and an
  entry is reported as the list writes it.
\<close>

theorem keyword_fallback_result:
  assumes "3 \<le> length domain_keywords"
  shows "let ranked = sorted_domains (domain_scores domain_keywords (lower text));
             top_score = snd (ranked ! 0)
         in keyword_based_classification domain_keywords text filename =
            (if top_score = 0 then
               Inr \<lparr> ta_primary_domain = Some ''general'',
                     ta_confidence = Some 0.3,
                     ta_reasoning = Some ''No domain-specific keywords found'',
                     ta_keywords = Some [],
                     ta_alternative_domains = Some [],
                     ta_method = Some ''keyword_fallback'',
                     ta_error = None \<rparr>
             else
               Inr \<lparr> ta_primary_domain = Some (fst (ranked ! 0)),
                     ta_confidence =
                       Some (min (real top_score / real (sum_list (map snd ranked))) 0.85),
                     ta_reasoning = Some (''Found '' @ str_nat top_score
                                          @ '' domain-specific keywords''),
                     ta_keywords =
                       Some (take 10 (filter (\<lambda>keyword. str_in (lower keyword) (lower text))
                                        (the (map_of domain_keywords (fst (ranked ! 0)))))),
                     ta_alternative_domains = Some [fst (ranked ! 1), fst (ranked ! 2)],
                     ta_method = Some ''keyword_fallback'',
                     ta_error = None \<rparr>)"
  using keyword_fallback_unfolded [OF assms] .

theorem keyword_fallback_result_witness:
  "3 \<le> length DOMAIN_KEYWORDS \<and>
   keyword_based_classification DOMAIN_KEYWORDS ''Court audit: LEGAL appeal'' ''a.pdf'' =
     Inr \<lparr> ta_primary_domain = Some ''law'',
           ta_confidence = Some 0.75,
           ta_reasoning = Some ''Found 3 domain-specific keywords'',
           ta_keywords = Some [''legal'', ''court'', ''appeal''],
           ta_alternative_domains = Some [''finance'', ''science''],
           ta_method = Some ''keyword_fallback'',
           ta_error = None \<rparr>"
proof -
  have h: "3 \<le> length DOMAIN_KEYWORDS"
    by (simp add: catalog_length)
  show ?thesis
    using h keyword_fallback_result [OF h, of "''Court audit: LEGAL appeal''" "''a.pdf''"]
    unfolding Let_def law_example_ranking
    by (simp add: law_example_matches str_nat_3)
qed

text \<open>
  Claim C4 as stated fails: the text \<open>Court audit: LEGAL appeal\<close> contains, as they are
  written, only the entry \<open>appeal\<close> of the law list, and the fallback reports \<open>legal\<close>,
  \<open>court\<close> and \<open>appeal\<close>.
\<close>

theorem literal_keywords_counterexample:
  "keyword_based_classification DOMAIN_KEYWORDS ''Court audit: LEGAL appeal'' ''a.pdf'' =
     Inr \<lparr> ta_primary_domain = Some ''law'',
           ta_confidence = Some 0.75,
           ta_reasoning = Some ''Found 3 domain-specific keywords'',
           ta_keywords = Some [''legal'', ''court'', ''appeal''],
           ta_alternative_domains = Some [''finance'', ''science''],
           ta_method = Some ''keyword_fallback'',
           ta_error = None \<rparr>
   \<and> spec_literal_keywords (the (map_of DOMAIN_KEYWORDS ''law'')) ''Court audit: LEGAL appeal''
       = [''appeal'']
   \<and> [''legal'', ''court'', ''appeal''] \<noteq> [''appeal'']"
proof -
  have h: "3 \<le> length DOMAIN_KEYWORDS"
    by (simp add: catalog_length)
  show ?thesis
    using keyword_fallback_unfolded [OF h, of "''Court audit: LEGAL appeal''" "''a.pdf''"]
    unfolding Let_def law_example_ranking
    by (simp add: law_example_matches law_example_literal_matches str_nat_3)
qed

section \<open>Properties of the Reconciler\<close>

text \<open>
  Claim C1. When the text classifier's primary domain is among the vision domain hints and
  the text confidence exceeds 0.7, \<open>process\<close> returns the quick-agreement decision: the
  text domain, the mean of the two confidences, agreement \<open>high\<close>, method
  \<open>quick_agreement\<close>; no request is sent to the arbitration chain, whatever the chain is.
\<close>

theorem quick_agreement_decision:
  assumes "dict_get (ta_primary_domain text_analysis) ''general''
             \<in> set (dict_get (va_visual_domain_hints vision_analysis) [])"
    and "dict_get (ta_confidence text_analysis) 0 > 0.7"
  shows "router_process float_str chain_ainvoke
           \<lparr> ri_filename = filename, ri_vision_analysis = Some vision_analysis,
             ri_text_analysis = Some text_analysis, ri_metadata = meta \<rparr>
         = (Inr \<lparr> dc_final_domain = Some (dict_get (ta_primary_domain text_analysis) ''general''),
                  dc_confidence =
                    Some ((dict_get (ta_confidence text_analysis) 0
                           + dict_get (va_confidence vision_analysis) 0) / 2),
                  dc_reasoning =
                    Some (''Strong agreement between vision and text analysis on ''
                          @ dict_get (ta_primary_domain text_analysis) ''general''
                          @ '' domain''),
                  dc_agreement_level = Some ''high'',
                  dc_primary_evidence =
                    Some (''Both analyses indicated ''
                          @ dict_get (ta_primary_domain text_analysis) ''general''),
                  dc_method = Some ''quick_agreement'',
                  dc_error = None \<rparr>, [])"
  using assms unfolding router_process_def Let_def
  by (simp add: dict_get_def)

theorem quick_agreement_decision_witness:
  "router_process (\<lambda>x. ''0.85'') (\<lambda>vars. Inl (BackendError ''unreachable''))
     \<lparr> ri_filename = Some ''a.pdf'',
       ri_vision_analysis =
         Some (empty_vision_analysis
                \<lparr> va_visual_domain_hints := Some [''finance'', ''law''],
                  va_confidence := Some 0.5 \<rparr>),
       ri_text_analysis =
         Some (empty_text_analysis
                \<lparr> ta_primary_domain := Some ''finance'', ta_confidence := Some 0.85 \<rparr>),
       ri_metadata = None \<rparr>
   = (Inr \<lparr> dc_final_domain = Some ''finance'',
            dc_confidence = Some 0.675,
            dc_reasoning =
              Some ''Strong agreement between vision and text analysis on finance domain'',
            dc_agreement_level = Some ''high'',
            dc_primary_evidence = Some ''Both analyses indicated finance'',
            dc_method = Some ''quick_agreement'',
            dc_error = None \<rparr>, [])"
  using quick_agreement_decision
    [of "empty_text_analysis\<lparr> ta_primary_domain := Some ''finance'', ta_confidence := Some 0.85 \<rparr>"
        "empty_vision_analysis\<lparr> va_visual_domain_hints := Some [''finance'', ''law''],
                                 va_confidence := Some 0.5 \<rparr>"
        "\<lambda>x. ''0.85''" "\<lambda>vars. Inl (BackendError ''unreachable'')" "Some ''a.pdf''" None]
  by (simp add: dict_get_def empty_text_analysis_def empty_vision_analysis_def)

lemma fallback_decision_fields:
  "fallback_decision float_str vision_analysis text_analysis =
     (let text_domain = dict_get (ta_primary_domain text_analysis) ''general'';
          text_confidence = dict_get (ta_confidence text_analysis) 0;
          vision_domains = dict_get (va_visual_domain_hints vision_analysis) [];
          vision_confidence = dict_get (va_confidence vision_analysis) 0
      in \<lparr> dc_final_domain =
             Some (if text_confidence > 0.6 then text_domain
                   else if vision_domains \<noteq> [] then vision_domains ! 0
                   else ''general''),
           dc_confidence =
             Some (if text_confidence > 0.6 then text_confidence * 0.8
                   else if vision_domains \<noteq> [] then vision_confidence * 0.7
                   else 0.4),
           dc_reasoning = Some (''Fallback decision based on text analysis (''
                                @ float_str text_confidence @ '') and vision hints''),
           dc_agreement_level =
             Some (if text_confidence > 0.6
                   then (if text_domain \<in> set vision_domains then ''medium'' else ''low'')
                   else if vision_domains \<noteq> [] then ''low''
                   else ''none''),
           dc_primary_evidence = Some ''Text content analysis weighted higher'',
           dc_method = Some ''fallback_weighted'',
           dc_error = None \<rparr>)"
  unfolding fallback_decision_def Let_def
  by (cases "dict_get (va_visual_domain_hints vision_analysis) []") auto

lemma router_process_arbiter_failed:
  assumes "snd (router_process float_str chain_ainvoke
                 \<lparr> ri_filename = filename, ri_vision_analysis = Some vision_analysis,
                   ri_text_analysis = Some text_analysis, ri_metadata = meta \<rparr>) = [vars]"
    and "chain_ainvoke vars = Inl e"
  shows "fst (router_process float_str chain_ainvoke
                 \<lparr> ri_filename = filename, ri_vision_analysis = Some vision_analysis,
                   ri_text_analysis = Some text_analysis, ri_metadata = meta \<rparr>)
         = Inr (fallback_decision float_str vision_analysis text_analysis)"
  using assms unfolding router_process_def Let_def
  by (auto simp: dict_get_def split: if_splits sum.splits)

text \<open>
  Claim C2. When the arbitration chain raises on the request that \<open>process\<close> sent to it,
  \<open>process\<close> returns the weighted-vote decision. That decision is: with text confidence
  above 0.6, the text domain at 0.8 times the text confidence, agreement \<open>medium\<close> if the
  text domain is a vision hint and \<open>low\<close> otherwise; else, with a vision hint, the first
  hint at 0.7 times the vision confidence, agreement \<open>low\<close>; else \<open>general\<close> at 0.4,
  agreement \<open>none\<close>. The method is \<open>fallback_weighted\<close> in every case.
\<close>

theorem weighted_vote_fallback:
  assumes "snd (router_process float_str chain_ainvoke
                 \<lparr> ri_filename = filename, ri_vision_analysis = Some vision_analysis,
                   ri_text_analysis = Some text_analysis, ri_metadata = meta \<rparr>) = [vars]"
    and "chain_ainvoke vars = Inl e"
  shows "fst (router_process float_str chain_ainvoke
                 \<lparr> ri_filename = filename, ri_vision_analysis = Some vision_analysis,
                   ri_text_analysis = Some text_analysis, ri_metadata = meta \<rparr>)
           = Inr (fallback_decision float_str vision_analysis text_analysis)
       \<and> fallback_decision float_str vision_analysis text_analysis =
           (let text_domain = dict_get (ta_primary_domain text_analysis) ''general'';
                text_confidence = dict_get (ta_confidence text_analysis) 0;
                vision_domains = dict_get (va_visual_domain_hints vision_analysis) [];
                vision_confidence = dict_get (va_confidence vision_analysis) 0
            in \<lparr> dc_final_domain =
                   Some (if text_confidence > 0.6 then text_domain
                         else if vision_domains \<noteq> [] then vision_domains ! 0
                         else ''general''),
                 dc_confidence =
                   Some (if text_confidence > 0.6 then text_confidence * 0.8
                         else if vision_domains \<noteq> [] then vision_confidence * 0.7
                         else 0.4),
                 dc_reasoning = Some (''Fallback decision based on text analysis (''
                                      @ float_str text_confidence @ '') and vision hints''),
                 dc_agreement_level =
                   Some (if text_confidence > 0.6
                         then (if text_domain \<in> set vision_domains then ''medium'' else ''low'')
                         else if vision_domains \<noteq> [] then ''low''
                         else ''none''),
                 dc_primary_evidence = Some ''Text content analysis weighted higher'',
                 dc_method = Some ''fallback_weighted'',
                 dc_error = None \<rparr>)"
  using router_process_arbiter_failed [OF assms] fallback_decision_fields
  by simp

theorem weighted_vote_fallback_witness:
  "snd (router_process (\<lambda>x. ''0.5'') (\<lambda>vars. Inl (BackendError ''down''))
         \<lparr> ri_filename = Some ''a.pdf'',
           ri_vision_analysis =
             Some (empty_vision_analysis
                    \<lparr> va_visual_domain_hints := Some [''finance'', ''law''],
                      va_confidence := Some 0.5 \<rparr>),
           ri_text_analysis =
             Some (empty_text_analysis
                    \<lparr> ta_primary_domain := Some ''arts'', ta_confidence := Some 0.5 \<rparr>),
           ri_metadata = None \<rparr>)
     = [\<lparr> rv_filename = ''a.pdf'', rv_vision_domains = ''finance, law'',
          rv_doc_type = ''unknown'', rv_has_tables = False, rv_has_charts = False,
          rv_vision_confidence = 0.5, rv_text_domain = ''arts'', rv_text_confidence = 0.5,
          rv_keywords = [], rv_text_reasoning = [] \<rparr>]
   \<and> fst (router_process (\<lambda>x. ''0.5'') (\<lambda>vars. Inl (BackendError ''down''))
         \<lparr> ri_filename = Some ''a.pdf'',
           ri_vision_analysis =
             Some (empty_vision_analysis
                    \<lparr> va_visual_domain_hints := Some [''finance'', ''law''],
                      va_confidence := Some 0.5 \<rparr>),
           ri_text_analysis =
             Some (empty_text_analysis
                    \<lparr> ta_primary_domain := Some ''arts'', ta_confidence := Some 0.5 \<rparr>),
           ri_metadata = None \<rparr>)
     = Inr \<lparr> dc_final_domain = Some ''finance'',
             dc_confidence = Some 0.35,
             dc_reasoning =
               Some ''Fallback decision based on text analysis (0.5) and vision hints'',
             dc_agreement_level = Some ''low'',
             dc_primary_evidence = Some ''Text content analysis weighted higher'',
             dc_method = Some ''fallback_weighted'',
             dc_error = None \<rparr>"
proof -
  let ?rf = "\<lambda>x::real. ''0.5''"
  let ?chain = "\<lambda>vars::router_prompt_vars. (Inl (BackendError ''down'') :: py_error + decision)"
  let ?va = "empty_vision_analysis
               \<lparr> va_visual_domain_hints := Some [''finance'', ''law''],
                 va_confidence := Some 0.5 \<rparr>"
  let ?ta = "empty_text_analysis
               \<lparr> ta_primary_domain := Some ''arts'', ta_confidence := Some 0.5 \<rparr>"
  let ?vars = "\<lparr> rv_filename = ''a.pdf'', rv_vision_domains = ''finance, law'',
          rv_doc_type = ''unknown'', rv_has_tables = False, rv_has_charts = False,
          rv_vision_confidence = 0.5, rv_text_domain = ''arts'', rv_text_confidence = 0.5,
          rv_keywords = [], rv_text_reasoning = [] \<rparr>"
  have sent: "snd (router_process ?rf ?chain
                 \<lparr> ri_filename = Some ''a.pdf'', ri_vision_analysis = Some ?va,
                   ri_text_analysis = Some ?ta, ri_metadata = None \<rparr>) = [?vars]"
    by (simp add: router_process_def router_prompt_def Let_def dict_get_def
        empty_vision_analysis_def empty_text_analysis_def)
  have raised: "?chain ?vars = Inl (BackendError ''down'')"
    by simp
  show ?thesis
    using sent weighted_vote_fallback [OF sent raised]
    by (simp add: Let_def dict_get_def empty_vision_analysis_def empty_text_analysis_def)
qed

section \<open>Properties of the agent base class\<close>

text \<open>
  Claim C10. For every agent, clock reading, \<open>process\<close> and input, \<open>execute\<close> returns an
  envelope: with \<open>success\<close> true and the result of \<open>process\<close> when \<open>process\<close> returned,
  with \<open>success\<close> false and the exception's message when \<open>process\<close> raised; in both
  cases the envelope carries the agent's name, the elapsed time and the time stamp, and
  the execution counter has advanced by one.
\<close>

theorem execute_total:
  "\<exists>self' envelope calls.
     execute self clk process input_data = (self', envelope, calls)
     \<and> execution_count self' = execution_count self + 1
     \<and> ar_agent_name envelope = ag_name self
     \<and> ar_execution_time envelope = t_end clk - t_start clk
     \<and> ar_timestamp envelope = now_iso clk
     \<and> calls = snd (process input_data)
     \<and> (case fst (process input_data) of
           Inr result \<Rightarrow>
             ar_success envelope \<and> ar_result envelope = Some result
             \<and> ar_error envelope = None
         | Inl e \<Rightarrow>
             \<not> ar_success envelope \<and> ar_error envelope = Some (str_of_error e)
             \<and> ar_result envelope = None)"
  unfolding execute_def Let_def
  by (cases "process input_data"; cases "fst (process input_data)") auto

theorem execute_total_witness:
  "\<exists>self' envelope calls.
     execute \<lparr> ag_name = ''FileOrganizationAgent'', ag_model_name = ''llama'',
               execution_count = 4 \<rparr>
        \<lparr> t_start = 10, t_end = 12.5, now_iso = ''2024-01-01T00:00:00'' \<rparr>
        (\<lambda>x :: nat. (Inl (FileNotFoundError ''File not found: a.pdf'') :: py_error + nat,
                     [] :: nat list))
        0
       = (self', envelope, calls)
     \<and> execution_count self' = 5
     \<and> ar_agent_name envelope = ''FileOrganizationAgent''
     \<and> ar_execution_time envelope = 2.5
     \<and> ar_timestamp envelope = ''2024-01-01T00:00:00''
     \<and> calls = []
     \<and> \<not> ar_success envelope
     \<and> ar_error envelope = Some ''File not found: a.pdf''
     \<and> ar_result envelope = None"
  using execute_total
    [of "\<lparr> ag_name = ''FileOrganizationAgent'', ag_model_name = ''llama'',
           execution_count = 4 \<rparr>"
        "\<lparr> t_start = 10, t_end = 12.5, now_iso = ''2024-01-01T00:00:00'' \<rparr>"
        "\<lambda>x :: nat. (Inl (FileNotFoundError ''File not found: a.pdf'') :: py_error + nat,
                     [] :: nat list)"
        0]
  by simp

section \<open>Properties of the workflow nodes\<close>

text \<open>
  Claim C5. While the vision analysis or the text analysis of the state is absent or the
  empty dictionary, the router node returns the empty update, leaves the Reconciler agent
  unexecuted (its execution counter is unchanged) and sends no arbitration request.
  Whenever the node does execute the Reconciler, both analyses are present and non-empty.
\<close>

theorem router_waits_for_both_analyses:
  "(dict_get (st_vision_analysis state) empty_vision_analysis = empty_vision_analysis
      \<or> dict_get (st_text_analysis state) empty_text_analysis = empty_text_analysis
    \<longrightarrow> router_node env self clk state = (self, no_update, []))
   \<and> (execution_count (fst (router_node env self clk state)) \<noteq> execution_count self
    \<longrightarrow> (\<exists>v t. st_vision_analysis state = Some v \<and> v \<noteq> empty_vision_analysis
               \<and> st_text_analysis state = Some t \<and> t \<noteq> empty_text_analysis))"
proof (intro conjI impI)
  assume "dict_get (st_vision_analysis state) empty_vision_analysis = empty_vision_analysis
      \<or> dict_get (st_text_analysis state) empty_text_analysis = empty_text_analysis"
  then show "router_node env self clk state = (self, no_update, [])"
    unfolding router_node_def Let_def by auto
next
  assume ran: "execution_count (fst (router_node env self clk state)) \<noteq> execution_count self"
  have "\<not> (dict_get (st_vision_analysis state) empty_vision_analysis = empty_vision_analysis
      \<or> dict_get (st_text_analysis state) empty_text_analysis = empty_text_analysis)"
  proof
    assume "dict_get (st_vision_analysis state) empty_vision_analysis = empty_vision_analysis
      \<or> dict_get (st_text_analysis state) empty_text_analysis = empty_text_analysis"
    then have "router_node env self clk state = (self, no_update, [])"
      unfolding router_node_def Let_def by auto
    with ran show False by simp
  qed
  then show "\<exists>v t. st_vision_analysis state = Some v \<and> v \<noteq> empty_vision_analysis
               \<and> st_text_analysis state = Some t \<and> t \<noteq> empty_text_analysis"
    by (cases "st_vision_analysis state"; cases "st_text_analysis state")
       (auto simp: dict_get_def)
qed

theorem router_waits_for_both_analyses_witness:
  "router_node
     \<lparr> env_path_exists = (\<lambda>p. True), env_extract_metadata = (\<lambda>p. []),
       env_extract_text = (\<lambda>p. []), env_generate_preview_images = (\<lambda>p. []),
       env_vision_llm_ainvoke = (\<lambda>i. Inl (BackendError ''slow'')),
       env_text_chain_ainvoke = (\<lambda>v. Inl (BackendError ''down'')),
       env_router_chain_ainvoke = (\<lambda>v. Inl (BackendError ''down'')),
       env_mcp_create_domain_folder = (\<lambda>d. \<lparr> mr_success = None, mr_message = None,
                                              mr_destination = None \<rparr>),
       env_mcp_move_file = (\<lambda>s d f. \<lparr> mr_success = None, mr_message = None,
                                       mr_destination = None \<rparr>),
       env_mcp_copy_file = (\<lambda>s d f. \<lparr> mr_success = None, mr_message = None,
                                       mr_destination = None \<rparr>),
       env_repr_float = (\<lambda>x. ''0.3''), env_format_2f = (\<lambda>x. ''0.30''),
       env_path_name = (\<lambda>p. p) \<rparr>
     \<lparr> ag_name = ''DomainRouterAgent'', ag_model_name = ''llama'', execution_count = 0 \<rparr>
     \<lparr> t_start = 0, t_end = 1, now_iso = ''2024-01-01T00:00:00'' \<rparr>
     (no_update
        \<lparr> st_filename := Some ''a.pdf'',
          st_text_analysis := Some (text_failed (Some ''timeout'')) \<rparr>)
   = (\<lparr> ag_name = ''DomainRouterAgent'', ag_model_name = ''llama'', execution_count = 0 \<rparr>,
      no_update, [])"
proof -
  let ?state = "no_update
        \<lparr> st_filename := Some ''a.pdf'',
          st_text_analysis := Some (text_failed (Some ''timeout'')) \<rparr>"
  have waiting:
    "dict_get (st_vision_analysis ?state) empty_vision_analysis = empty_vision_analysis
     \<or> dict_get (st_text_analysis ?state) empty_text_analysis = empty_text_analysis"
    by (simp add: no_update_def dict_get_def)
  show ?thesis
    using router_waits_for_both_analyses [THEN conjunct1, rule_format, OF waiting]
    by simp
qed

section \<open>Properties of Classifier A\<close>

lemma parse_vision_response_hints:
  "va_visual_domain_hints (parse_vision_response response_text)
     = Some (take 3 (domain_hints (lower response_text)))"
  unfolding parse_vision_response_def Let_def by simp

lemma parse_vision_response_confidence:
  "va_confidence (parse_vision_response response_text)
     = Some (min (0.25 * real (length (domain_hints (lower response_text)))) 1)"
  unfolding parse_vision_response_def Let_def by (simp add: mult.commute)

lemma domain_hints_in_order:
  "subseq (domain_hints response_lower)
     [''finance'', ''law'', ''science'', ''technology'', ''healthcare'', ''education'',
      ''business'', ''engineering'']"
proof -
  have "subseq (domain_hints response_lower) (map fst domains_map)"
    unfolding domain_hints_def by (rule subseq_map) simp
  then show ?thesis by (simp add: domains_map_def)
qed

lemma vision_process_no_images:
  assumes "vi_preview_images input_data = None \<or> vi_preview_images input_data = Some []"
  shows "vision_process vision_llm input_data
         = (Inr \<lparr> va_visual_domain_hints = Some [],
                  va_document_type = Some ''unknown'',
                  va_has_tables = Some False,
                  va_has_charts = Some False,
                  va_layout_type = Some ''unknown'',
                  va_confidence = Some 0,
                  va_raw_analysis = None,
                  va_error = None \<rparr>, [])"
  using assms unfolding vision_process_def Let_def by auto

lemma four_domain_response_hints:
  "domain_hints (lower ''Financial tables, legal terms, research notes and software'')
     = [''finance'', ''law'', ''science'', ''technology'']"
  by code_simp

text \<open>
  Claim C9, as amended. With no preview image, \<open>process\<close> returns the zero-confidence
  placeholder and sends no request to the vision backend, whatever the backend is. For
  every response text the parsed record's domain hints are the first three of the domains
  hit, and the domains hit are in the order of the fixed enumeration of eight domains; the
  confidence is a quarter per domain hit, counted before the hints are cut to three, capped
  at 1.
\<close>

theorem vision_hints_and_confidence:
  "(vi_preview_images input_data = None \<or> vi_preview_images input_data = Some []
      \<longrightarrow> vision_process vision_llm input_data
          = (Inr \<lparr> va_visual_domain_hints = Some [],
                   va_document_type = Some ''unknown'',
                   va_has_tables = Some False,
                   va_has_charts = Some False,
                   va_layout_type = Some ''unknown'',
                   va_confidence = Some 0,
                   va_raw_analysis = None,
                   va_error = None \<rparr>, []))
   \<and> va_visual_domain_hints (parse_vision_response response_text)
       = Some (take 3 (domain_hints (lower response_text)))
   \<and> length (take 3 (domain_hints (lower response_text))) \<le> 3
   \<and> subseq (domain_hints (lower response_text))
        [''finance'', ''law'', ''science'', ''technology'', ''healthcare'', ''education'',
         ''business'', ''engineering'']
   \<and> va_confidence (parse_vision_response response_text)
       = Some (min (0.25 * real (length (domain_hints (lower response_text)))) 1)"
  using vision_process_no_images [of input_data vision_llm]
    parse_vision_response_hints [of response_text]
    parse_vision_response_confidence [of response_text]
    domain_hints_in_order [of "lower response_text"]
  by simp

theorem vision_hints_and_confidence_witness:
  "vision_process (\<lambda>image. Inl (BackendError ''unreachable''))
     \<lparr> vi_preview_images = Some [], vi_filename = Some ''a.pdf'', vi_metadata = None \<rparr>
     = (Inr \<lparr> va_visual_domain_hints = Some [],
              va_document_type = Some ''unknown'',
              va_has_tables = Some False,
              va_has_charts = Some False,
              va_layout_type = Some ''unknown'',
              va_confidence = Some 0,
              va_raw_analysis = None,
              va_error = None \<rparr>, [])
   \<and> va_visual_domain_hints
       (parse_vision_response ''Financial tables, legal terms, research notes and software'')
       = Some [''finance'', ''law'', ''science'']
   \<and> va_confidence
       (parse_vision_response ''Financial tables, legal terms, research notes and software'')
       = Some 1"
  using vision_hints_and_confidence
    [of "\<lparr> vi_preview_images = Some [], vi_filename = Some ''a.pdf'', vi_metadata = None \<rparr>"
        "\<lambda>image. Inl (BackendError ''unreachable'')"
        "''Financial tables, legal terms, research notes and software''"]
  unfolding four_domain_response_hints
  by simp

text \<open>
  Claim C9 as stated fails where a response hits four domains: the record keeps three
  hints, and its confidence is 1, not three quarters.
\<close>

theorem hint_confidence_counterexample:
  "\<not> spec_hint_confidence
       (parse_vision_response ''Financial tables, legal terms, research notes and software'')"
  unfolding spec_hint_confidence_def parse_vision_response_hints
    parse_vision_response_confidence four_domain_response_hints
  by simp

section \<open>Properties of the router node\<close>

lemma execute_returned:
  assumes "fst (process input_data) = Inr r"
  shows "execute self clk process input_data
         = (self\<lparr> execution_count := execution_count self + 1 \<rparr>,
            \<lparr> ar_agent_name = ag_name self, ar_success = True, ar_result = Some r,
              ar_error = None, ar_execution_time = t_end clk - t_start clk,
              ar_timestamp = now_iso clk \<rparr>,
            snd (process input_data))"
  using assms unfolding execute_def Let_def
  by (cases "process input_data") auto

lemma execute_raised:
  assumes "fst (process input_data) = Inl e"
  shows "execute self clk process input_data
         = (self\<lparr> execution_count := execution_count self + 1 \<rparr>,
            \<lparr> ar_agent_name = ag_name self, ar_success = False, ar_result = None,
              ar_error = Some (str_of_error e), ar_execution_time = t_end clk - t_start clk,
              ar_timestamp = now_iso clk \<rparr>,
            snd (process input_data))"
  using assms unfolding execute_def Let_def
  by (cases "process input_data") auto

lemma dict_get_Some: "dict_get (Some v) d = v"
  by (simp add: dict_get_def)

lemma dict_get_None: "dict_get None d = d"
  by (simp add: dict_get_def)

lemma router_process_not_quick:
  assumes "\<not> (dict_get (ta_primary_domain text_analysis) ''general''
                 \<in> set (dict_get (va_visual_domain_hints vision_analysis) [])
               \<and> dict_get (ta_confidence text_analysis) 0 > 0.7)"
  shows "router_process float_str chain_ainvoke
           \<lparr> ri_filename = filename, ri_vision_analysis = Some vision_analysis,
             ri_text_analysis = Some text_analysis, ri_metadata = meta \<rparr>
         = (case chain_ainvoke
                   (router_prompt
                      \<lparr> ri_filename = filename, ri_vision_analysis = Some vision_analysis,
                        ri_text_analysis = Some text_analysis, ri_metadata = meta \<rparr>) of
              Inr result \<Rightarrow>
                (Inr (result\<lparr> dc_method := Some ''llm_decision'' \<rparr>),
                 [router_prompt
                    \<lparr> ri_filename = filename, ri_vision_analysis = Some vision_analysis,
                      ri_text_analysis = Some text_analysis, ri_metadata = meta \<rparr>])
            | Inl e \<Rightarrow>
                (Inr (fallback_decision float_str vision_analysis text_analysis),
                 [router_prompt
                    \<lparr> ri_filename = filename, ri_vision_analysis = Some vision_analysis,
                      ri_text_analysis = Some text_analysis, ri_metadata = meta \<rparr>]))"
proof (cases "dict_get (ta_primary_domain text_analysis) ''general''
                 \<in> set (dict_get (va_visual_domain_hints vision_analysis) [])")
  case True
  with assms have "\<not> dict_get (ta_confidence text_analysis) 0 > 0.7" by simp
  then show ?thesis
    unfolding router_process_def Let_def
    by (simp add: dict_get_Some split: sum.split)
next
  case False
  then show ?thesis
    unfolding router_process_def Let_def
    by (simp add: dict_get_Some split: sum.split)
qed

lemma router_process_returns:
  "\<exists>d. fst (router_process float_str chain_ainvoke input_data) = Inr d"
  unfolding router_process_def Let_def
  by (auto split: sum.splits)

lemma router_process_cases:
  assumes "fst (router_process float_str chain_ainvoke
                  \<lparr> ri_filename = filename, ri_vision_analysis = Some vision_analysis,
                    ri_text_analysis = Some text_analysis, ri_metadata = meta \<rparr>) = Inr d"
  shows "(dict_get (ta_primary_domain text_analysis) ''general''
               \<in> set (dict_get (va_visual_domain_hints vision_analysis) [])
          \<and> dict_get (ta_confidence text_analysis) 0 > 0.7
          \<and> dc_final_domain d = Some (dict_get (ta_primary_domain text_analysis) ''general'')
          \<and> dc_confidence d = Some ((dict_get (ta_confidence text_analysis) 0
                                     + dict_get (va_confidence vision_analysis) 0) / 2))
       \<or> (\<exists>vars result. chain_ainvoke vars = Inr result
              \<and> d = result\<lparr> dc_method := Some ''llm_decision'' \<rparr>)
       \<or> d = fallback_decision float_str vision_analysis text_analysis"
proof (cases "dict_get (ta_primary_domain text_analysis) ''general''
               \<in> set (dict_get (va_visual_domain_hints vision_analysis) [])
             \<and> dict_get (ta_confidence text_analysis) 0 > 0.7")
  case True
  with assms show ?thesis
    unfolding router_process_def Let_def
    by (auto simp: dict_get_Some)
next
  case False
  let ?vars = "router_prompt
                 \<lparr> ri_filename = filename, ri_vision_analysis = Some vision_analysis,
                   ri_text_analysis = Some text_analysis, ri_metadata = meta \<rparr>"
  show ?thesis
  proof (cases "chain_ainvoke ?vars")
    case (Inl e)
    with assms have "d = fallback_decision float_str vision_analysis text_analysis"
      unfolding router_process_not_quick [OF False] by simp
    then show ?thesis by blast
  next
    case (Inr result)
    with assms have "d = result\<lparr> dc_method := Some ''llm_decision'' \<rparr>"
      unfolding router_process_not_quick [OF False] by simp
    with Inr show ?thesis by blast
  qed
qed

lemma general_is_a_tag: "''general'' \<in> set domain_tags"
  by (simp add: domain_tags_def)

lemma fallback_decision_final_domain:
  assumes "dict_get (ta_primary_domain text_analysis) ''general'' \<in> set domain_tags"
    and "set (dict_get (va_visual_domain_hints vision_analysis) []) \<subseteq> set domain_tags"
  shows "\<exists>t. dc_final_domain (fallback_decision float_str vision_analysis text_analysis) = Some t
             \<and> t \<in> set domain_tags"
  using assms general_is_a_tag unfolding fallback_decision_def Let_def
  by (cases "dict_get (va_visual_domain_hints vision_analysis) []") auto

lemma router_process_final_domain:
  assumes tdom: "dict_get (ta_primary_domain text_analysis) ''general'' \<in> set domain_tags"
    and hints: "set (dict_get (va_visual_domain_hints vision_analysis) []) \<subseteq> set domain_tags"
    and arbiter: "\<And>vars result. chain_ainvoke vars = Inr result
                    \<Longrightarrow> dict_get (dc_final_domain result) ''general'' \<in> set domain_tags"
    and ret: "fst (router_process float_str chain_ainvoke
                  \<lparr> ri_filename = filename, ri_vision_analysis = Some vision_analysis,
                    ri_text_analysis = Some text_analysis, ri_metadata = meta \<rparr>) = Inr d"
  shows "dict_get (dc_final_domain d) ''general'' \<in> set domain_tags"
proof -
  from router_process_cases [OF ret]
  consider
    (quick) "dc_final_domain d = Some (dict_get (ta_primary_domain text_analysis) ''general'')"
  | (arbitrated) vars result where "chain_ainvoke vars = Inr result"
      "d = result\<lparr> dc_method := Some ''llm_decision'' \<rparr>"
  | (fallback) "d = fallback_decision float_str vision_analysis text_analysis"
    by blast
  then show ?thesis
  proof cases
    case quick
    with tdom show ?thesis by (simp add: dict_get_Some)
  next
    case (arbitrated vars result)
    with arbiter [of vars result] show ?thesis by simp
  next
    case fallback
    with fallback_decision_final_domain [OF tdom hints, of float_str]
    show ?thesis by (auto simp: dict_get_Some)
  qed
qed

lemma router_node_waiting:
  assumes "dict_get (st_vision_analysis state) empty_vision_analysis = empty_vision_analysis
           \<or> dict_get (st_text_analysis state) empty_text_analysis = empty_text_analysis"
  shows "router_node env self clk state = (self, no_update, [])"
  using assms unfolding router_node_def Let_def by auto

lemma router_node_routed:
  assumes "dict_get (st_vision_analysis state) empty_vision_analysis \<noteq> empty_vision_analysis"
    and "dict_get (st_text_analysis state) empty_text_analysis \<noteq> empty_text_analysis"
    and "fst (router_process (env_repr_float env) (env_router_chain_ainvoke env)
                \<lparr> ri_filename = st_filename state,
                  ri_vision_analysis =
                    Some (dict_get (st_vision_analysis state) empty_vision_analysis),
                  ri_text_analysis =
                    Some (dict_get (st_text_analysis state) empty_text_analysis),
                  ri_metadata = Some (dict_get (st_metadata state) []) \<rparr>) = Inr d"
  shows "fst (snd (router_node env self clk state))
         = (case dc_confidence d of
              None \<Rightarrow> router_error ''unsupported format string passed to NoneType.__format__''
            | Some c \<Rightarrow>
                no_update
                  \<lparr> st_final_decision := Some d,
                    st_final_domain := Some (dict_get (dc_final_domain d) ''general''),
                    st_confidence := Some c,
                    st_messages :=
                      [''Classified as '' @ str_opt (dc_final_domain d)
                       @ '' with '' @ env_format_2f env c @ '' confidence''] \<rparr>)"
proof -
  have "execute self clk
          (router_process (env_repr_float env) (env_router_chain_ainvoke env))
          \<lparr> ri_filename = st_filename state,
            ri_vision_analysis =
              Some (dict_get (st_vision_analysis state) empty_vision_analysis),
            ri_text_analysis =
              Some (dict_get (st_text_analysis state) empty_text_analysis),
            ri_metadata = Some (dict_get (st_metadata state) []) \<rparr>
        = (self\<lparr> execution_count := execution_count self + 1 \<rparr>,
           \<lparr> ar_agent_name = ag_name self, ar_success = True, ar_result = Some d,
             ar_error = None, ar_execution_time = t_end clk - t_start clk,
             ar_timestamp = now_iso clk \<rparr>,
           snd (router_process (env_repr_float env) (env_router_chain_ainvoke env)
                 \<lparr> ri_filename = st_filename state,
                   ri_vision_analysis =
                     Some (dict_get (st_vision_analysis state) empty_vision_analysis),
                   ri_text_analysis =
                     Some (dict_get (st_text_analysis state) empty_text_analysis),
                   ri_metadata = Some (dict_get (st_metadata state) []) \<rparr>))"
    using assms(3) by (rule execute_returned)
  then show ?thesis
    using assms(1,2) unfolding router_node_def Let_def
    by (simp split: option.splits)
qed

text \<open>
  Claim C6, as amended. The \<open>final_domain\<close> that the router node writes is one of the ten
  declared tags whenever the text classifier's primary domain, every vision domain hint
  and the domain of every answer of the arbiter are declared tags. No tag is coerced: the
  node passes on what the Reconciler decided.
\<close>

theorem final_domain_is_declared_tag:
  assumes "dict_get (ta_primary_domain (dict_get (st_text_analysis state) empty_text_analysis))
             ''general'' \<in> set domain_tags"
    and "set (dict_get (va_visual_domain_hints
                          (dict_get (st_vision_analysis state) empty_vision_analysis)) [])
           \<subseteq> set domain_tags"
    and "\<And>vars result. env_router_chain_ainvoke env vars = Inr result
           \<Longrightarrow> dict_get (dc_final_domain result) ''general'' \<in> set domain_tags"
  shows "case st_final_domain (fst (snd (router_node env self clk state))) of
           None \<Rightarrow> True
         | Some final_domain \<Rightarrow> final_domain \<in> set domain_tags"
proof (cases "dict_get (st_vision_analysis state) empty_vision_analysis = empty_vision_analysis
              \<or> dict_get (st_text_analysis state) empty_text_analysis = empty_text_analysis")
  case True
  then show ?thesis
    by (simp add: router_node_waiting no_update_def)
next
  case False
  obtain d where d: "fst (router_process (env_repr_float env) (env_router_chain_ainvoke env)
                \<lparr> ri_filename = st_filename state,
                  ri_vision_analysis =
                    Some (dict_get (st_vision_analysis state) empty_vision_analysis),
                  ri_text_analysis =
                    Some (dict_get (st_text_analysis state) empty_text_analysis),
                  ri_metadata = Some (dict_get (st_metadata state) []) \<rparr>) = Inr d"
    using router_process_returns by blast
  have tag: "dict_get (dc_final_domain d) ''general'' \<in> set domain_tags"
    using router_process_final_domain [OF assms(1) assms(2) assms(3) d] .
  from False have ne: "dict_get (st_vision_analysis state) empty_vision_analysis
                         \<noteq> empty_vision_analysis"
      "dict_get (st_text_analysis state) empty_text_analysis \<noteq> empty_text_analysis"
    by simp_all
  show ?thesis
    unfolding router_node_routed [OF ne d]
    using tag general_is_a_tag
    by (cases "dc_confidence d") (simp_all add: router_error_def no_update_def)
qed

theorem final_domain_is_declared_tag_witness:
  "st_final_domain
     (fst (snd (router_node
        \<lparr> env_path_exists = (\<lambda>p. True), env_extract_metadata = (\<lambda>p. []),
          env_extract_text = (\<lambda>p. []), env_generate_preview_images = (\<lambda>p. []),
          env_vision_llm_ainvoke = (\<lambda>i. Inl (BackendError ''down'')),
          env_text_chain_ainvoke = (\<lambda>v. Inl (BackendError ''down'')),
          env_router_chain_ainvoke =
            (\<lambda>v. Inr (empty_decision\<lparr> dc_final_domain := Some ''law'',
                                      dc_confidence := Some 0.8 \<rparr>)),
          env_mcp_create_domain_folder = (\<lambda>d. \<lparr> mr_success = None, mr_message = None,
                                                 mr_destination = None \<rparr>),
          env_mcp_move_file = (\<lambda>s d f. \<lparr> mr_success = None, mr_message = None,
                                          mr_destination = None \<rparr>),
          env_mcp_copy_file = (\<lambda>s d f. \<lparr> mr_success = None, mr_message = None,
                                          mr_destination = None \<rparr>),
          env_repr_float = (\<lambda>x. ''0.5''), env_format_2f = (\<lambda>x. ''0.80''),
          env_path_name = (\<lambda>p. p) \<rparr>
        \<lparr> ag_name = ''DomainRouterAgent'', ag_model_name = ''llama'', execution_count = 0 \<rparr>
        \<lparr> t_start = 0, t_end = 1, now_iso = ''2024-01-01T00:00:00'' \<rparr>
        (no_update
           \<lparr> st_filename := Some ''a.pdf'',
             st_vision_analysis :=
               Some (empty_vision_analysis
                      \<lparr> va_visual_domain_hints := Some [''finance''],
                        va_confidence := Some 0.25 \<rparr>),
             st_text_analysis :=
               Some (empty_text_analysis
                      \<lparr> ta_primary_domain := Some ''arts'',
                        ta_confidence := Some 0.5 \<rparr>) \<rparr>))))
   = Some ''law''
   \<and> ''law'' \<in> set domain_tags"
proof -
  let ?env = "\<lparr> env_path_exists = (\<lambda>p. True), env_extract_metadata = (\<lambda>p. []),
          env_extract_text = (\<lambda>p. []), env_generate_preview_images = (\<lambda>p. []),
          env_vision_llm_ainvoke = (\<lambda>i. Inl (BackendError ''down'')),
          env_text_chain_ainvoke = (\<lambda>v. Inl (BackendError ''down'')),
          env_router_chain_ainvoke =
            (\<lambda>v. Inr (empty_decision\<lparr> dc_final_domain := Some ''law'',
                                      dc_confidence := Some 0.8 \<rparr>)),
          env_mcp_create_domain_folder = (\<lambda>d. \<lparr> mr_success = None, mr_message = None,
                                                 mr_destination = None \<rparr>),
          env_mcp_move_file = (\<lambda>s d f. \<lparr> mr_success = None, mr_message = None,
                                          mr_destination = None \<rparr>),
          env_mcp_copy_file = (\<lambda>s d f. \<lparr> mr_success = None, mr_message = None,
                                          mr_destination = None \<rparr>),
          env_repr_float = (\<lambda>x. ''0.5''), env_format_2f = (\<lambda>x. ''0.80''),
          env_path_name = (\<lambda>p. p) \<rparr>"
  let ?self = "\<lparr> ag_name = ''DomainRouterAgent'', ag_model_name = ''llama'',
                  execution_count = 0 \<rparr>"
  let ?clk = "\<lparr> t_start = 0, t_end = 1, now_iso = ''2024-01-01T00:00:00'' \<rparr>"
  let ?state = "no_update
           \<lparr> st_filename := Some ''a.pdf'',
             st_vision_analysis :=
               Some (empty_vision_analysis
                      \<lparr> va_visual_domain_hints := Some [''finance''],
                        va_confidence := Some 0.25 \<rparr>),
             st_text_analysis :=
               Some (empty_text_analysis
                      \<lparr> ta_primary_domain := Some ''arts'',
                        ta_confidence := Some 0.5 \<rparr>) \<rparr>"
  have tdom: "dict_get (ta_primary_domain (dict_get (st_text_analysis ?state) empty_text_analysis))
             ''general'' \<in> set domain_tags"
    by (simp add: no_update_def dict_get_def empty_text_analysis_def domain_tags_def)
  have hints: "set (dict_get (va_visual_domain_hints
                          (dict_get (st_vision_analysis ?state) empty_vision_analysis)) [])
           \<subseteq> set domain_tags"
    by (simp add: no_update_def dict_get_def empty_vision_analysis_def domain_tags_def)
  have arbiter: "\<And>vars result. env_router_chain_ainvoke ?env vars = Inr result
           \<Longrightarrow> dict_get (dc_final_domain result) ''general'' \<in> set domain_tags"
    by (auto simp: dict_get_def empty_decision_def domain_tags_def)
  have run: "st_final_domain (fst (snd (router_node ?env ?self ?clk ?state))) = Some ''law''"
    by (simp add: router_node_def execute_def router_process_def router_prompt_def Let_def
        no_update_def dict_get_def empty_vision_analysis_def empty_text_analysis_def empty_decision_def)
  show ?thesis
    using final_domain_is_declared_tag [of ?state ?env ?self ?clk, OF tdom hints arbiter] run
    by simp
qed

text \<open>
  Claim C6 as stated fails: when the arbiter answers with a tag outside the declared ten,
  the router node writes that tag as \<open>final_domain\<close>.
\<close>

theorem unrecognised_tag_counterexample:
  "st_final_domain
     (fst (snd (router_node
        \<lparr> env_path_exists = (\<lambda>p. True), env_extract_metadata = (\<lambda>p. []),
          env_extract_text = (\<lambda>p. []), env_generate_preview_images = (\<lambda>p. []),
          env_vision_llm_ainvoke = (\<lambda>i. Inl (BackendError ''down'')),
          env_text_chain_ainvoke = (\<lambda>v. Inl (BackendError ''down'')),
          env_router_chain_ainvoke =
            (\<lambda>v. Inr (empty_decision\<lparr> dc_final_domain := Some ''cooking'',
                                      dc_confidence := Some 0.9 \<rparr>)),
          env_mcp_create_domain_folder = (\<lambda>d. \<lparr> mr_success = None, mr_message = None,
                                                 mr_destination = None \<rparr>),
          env_mcp_move_file = (\<lambda>s d f. \<lparr> mr_success = None, mr_message = None,
                                          mr_destination = None \<rparr>),
          env_mcp_copy_file = (\<lambda>s d f. \<lparr> mr_success = None, mr_message = None,
                                          mr_destination = None \<rparr>),
          env_repr_float = (\<lambda>x. ''0.3''), env_format_2f = (\<lambda>x. ''0.90''),
          env_path_name = (\<lambda>p. p) \<rparr>
        \<lparr> ag_name = ''DomainRouterAgent'', ag_model_name = ''llama'', execution_count = 0 \<rparr>
        \<lparr> t_start = 0, t_end = 1, now_iso = ''2024-01-01T00:00:00'' \<rparr>
        (no_update
           \<lparr> st_filename := Some ''recipes.pdf'',
             st_vision_analysis :=
               Some (empty_vision_analysis
                      \<lparr> va_visual_domain_hints := Some [],
                        va_confidence := Some 0 \<rparr>),
             st_text_analysis :=
               Some (empty_text_analysis
                      \<lparr> ta_primary_domain := Some ''general'',
                        ta_confidence := Some 0.3 \<rparr>) \<rparr>))))
   = Some ''cooking''
   \<and> ''cooking'' \<notin> set domain_tags"
  by (simp add: router_node_def execute_def router_process_def router_prompt_def Let_def
      no_update_def dict_get_def empty_vision_analysis_def empty_text_analysis_def empty_decision_def
      domain_tags_def)

section \<open>Ranges of the confidence values\<close>

lemma dict_get_confidence_bounds:
  assumes "confidence_in_range c"
  shows "0 \<le> dict_get c 0 \<and> dict_get c 0 \<le> 1"
  using assms by (cases c) (simp_all add: confidence_in_range_def dict_get_def)

lemma parse_vision_response_in_range:
  "confidence_in_range (va_confidence (parse_vision_response response_text))"
  unfolding parse_vision_response_confidence confidence_in_range_def by simp

lemma vision_process_in_range:
  "\<exists>r. fst (vision_process vision_llm input_data) = Inr r
        \<and> confidence_in_range (va_confidence r)"
proof (cases "dict_get (vi_preview_images input_data) []")
  case Nil
  then show ?thesis
    unfolding vision_process_def Let_def
    by (simp add: dict_get_def confidence_in_range_def split: option.splits)
next
  case (Cons first_image rest)
  show ?thesis
  proof (cases "vision_llm first_image")
    case (Inl e)
    with Cons show ?thesis
      unfolding vision_process_def analyze_image_def Let_def
      by (simp add: dict_get_def confidence_in_range_def split: option.splits)
  next
    case (Inr analysis_text)
    with Cons show ?thesis
      unfolding vision_process_def analyze_image_def Let_def
      by (simp add: dict_get_def parse_vision_response_in_range split: option.splits)
  qed
qed

lemma vision_node_update:
  "\<exists>r msgs. fst (snd (vision_node env self clk state))
                = no_update\<lparr> st_vision_analysis := Some r, st_messages := msgs \<rparr>
            \<and> confidence_in_range (va_confidence r)"
proof -
  let ?input = "\<lparr> vi_preview_images = Some (dict_get (st_preview_images state) []),
                   vi_filename = st_filename state,
                   vi_metadata = Some (dict_get (st_metadata state) []) \<rparr>"
  obtain r where r: "fst (vision_process (env_vision_llm_ainvoke env) ?input) = Inr r"
    and ok: "confidence_in_range (va_confidence r)"
    using vision_process_in_range by blast
  have "execute self clk (vision_process (env_vision_llm_ainvoke env)) ?input
        = (self\<lparr> execution_count := execution_count self + 1 \<rparr>,
           \<lparr> ar_agent_name = ag_name self, ar_success = True, ar_result = Some r,
             ar_error = None, ar_execution_time = t_end clk - t_start clk,
             ar_timestamp = now_iso clk \<rparr>,
           snd (vision_process (env_vision_llm_ainvoke env) ?input))"
    using r by (rule execute_returned)
  then have "fst (snd (vision_node env self clk state))
             = no_update\<lparr> st_vision_analysis := Some r,
                         st_messages := [''Vision analysis completed''] \<rparr>"
    unfolding vision_node_def Let_def by simp
  with ok show ?thesis by blast
qed

lemma vision_node_in_range:
  "case st_vision_analysis (fst (snd (vision_node env self clk state))) of
     None \<Rightarrow> True
   | Some r \<Rightarrow> confidence_in_range (va_confidence r)"
proof -
  obtain r msgs where "fst (snd (vision_node env self clk state))
                = no_update\<lparr> st_vision_analysis := Some r, st_messages := msgs \<rparr>"
    and "confidence_in_range (va_confidence r)"
    using vision_node_update by blast
  then show ?thesis by simp
qed

lemma keyword_fallback_in_range:
  assumes "keyword_based_classification domain_keywords text_content filename = Inr r"
  shows "confidence_in_range (ta_confidence r)"
  using assms
  unfolding keyword_based_classification_def Let_def
  by (auto split: list.splits if_splits option.splits
      simp: confidence_in_range_def min_le_iff_disj)

lemma llm_classification_in_range:
  assumes "\<forall>vars result. chain_ainvoke vars = Inr result
             \<longrightarrow> confidence_in_range (ta_confidence result)"
    and "fst (llm_classification chain_ainvoke domain_keywords text_sample filename) = Inr r"
  shows "confidence_in_range (ta_confidence r)"
proof -
  let ?vars = "\<lparr> tv_domain_descriptions = domain_descriptions domain_keywords,
                  tv_text = text_sample, tv_filename = filename \<rparr>"
  show ?thesis
  proof (cases "chain_ainvoke ?vars")
    case (Inl e)
    with assms(2) show ?thesis
      unfolding llm_classification_def Let_def by simp
  next
    case (Inr result)
    with assms(2) have "ta_confidence r = Some (dict_get (ta_confidence result) 0.5)"
      unfolding llm_classification_def Let_def by auto
    moreover have "confidence_in_range (ta_confidence result)"
      using assms(1) Inr by blast
    ultimately show ?thesis
      by (cases "ta_confidence result") (simp_all add: confidence_in_range_def dict_get_def)
  qed
qed

lemma text_process_in_range:
  assumes "\<forall>vars result. chain_ainvoke vars = Inr result
             \<longrightarrow> confidence_in_range (ta_confidence result)"
    and "fst (text_process chain_ainvoke domain_keywords input_data) = Inr r"
  shows "confidence_in_range (ta_confidence r)"
proof -
  let ?content = "dict_get (ti_text_content input_data) []"
  let ?filename = "dict_get (ti_filename input_data) ''unknown''"
  show ?thesis
  proof (cases "?content = [] \<or> length (strip ?content) < 50")
    case True
    with assms(2) have "keyword_based_classification domain_keywords ?content ?filename = Inr r"
      unfolding text_process_def Let_def by auto
    then show ?thesis by (rule keyword_fallback_in_range)
  next
    case False
    show ?thesis
    proof (cases "fst (llm_classification chain_ainvoke domain_keywords
                         (take 8000 ?content) ?filename)")
      case (Inl e)
      with False assms(2)
      have "keyword_based_classification domain_keywords ?content ?filename = Inr r"
        unfolding text_process_def Let_def by (auto split: prod.splits)
      then show ?thesis by (rule keyword_fallback_in_range)
    next
      case (Inr result)
      with False assms(2) have "r = result"
        unfolding text_process_def Let_def by (auto split: prod.splits)
      moreover have "confidence_in_range (ta_confidence result)"
        using assms(1) Inr by (rule llm_classification_in_range)
      ultimately show ?thesis by simp
    qed
  qed
qed

lemma text_node_update:
  assumes "\<forall>vars result. env_text_chain_ainvoke env vars = Inr result
             \<longrightarrow> confidence_in_range (ta_confidence result)"
  shows "\<exists>r msgs. fst (snd (text_node env self clk state))
                = no_update\<lparr> st_text_analysis := Some r, st_messages := msgs \<rparr>
            \<and> confidence_in_range (ta_confidence r)"
proof -
  let ?input = "\<lparr> ti_text_content = Some (dict_get (st_text_content state) []),
                   ti_filename = st_filename state,
                   ti_metadata = Some (dict_get (st_metadata state) []) \<rparr>"
  let ?process = "text_process (env_text_chain_ainvoke env) DOMAIN_KEYWORDS"
  show ?thesis
  proof (cases "fst (?process ?input)")
    case (Inl e)
    have "execute self clk ?process ?input
          = (self\<lparr> execution_count := execution_count self + 1 \<rparr>,
             \<lparr> ar_agent_name = ag_name self, ar_success = False, ar_result = None,
               ar_error = Some (str_of_error e),
               ar_execution_time = t_end clk - t_start clk,
               ar_timestamp = now_iso clk \<rparr>,
             snd (?process ?input))"
      using Inl by (rule execute_raised)
    then have "fst (snd (text_node env self clk state))
               = no_update\<lparr> st_text_analysis := Some (text_failed (Some (str_of_error e))),
                           st_messages := [''Text classification failed''] \<rparr>"
      unfolding text_node_def Let_def by simp
    moreover have "confidence_in_range (ta_confidence (text_failed (Some (str_of_error e))))"
      by (simp add: text_failed_def empty_text_analysis_def confidence_in_range_def)
    ultimately show ?thesis by blast
  next
    case (Inr r)
    have ok: "confidence_in_range (ta_confidence r)"
      using text_process_in_range [OF assms Inr] .
    have "execute self clk ?process ?input
          = (self\<lparr> execution_count := execution_count self + 1 \<rparr>,
             \<lparr> ar_agent_name = ag_name self, ar_success = True, ar_result = Some r,
               ar_error = None, ar_execution_time = t_end clk - t_start clk,
               ar_timestamp = now_iso clk \<rparr>,
             snd (?process ?input))"
      using Inr by (rule execute_returned)
    then have "fst (snd (text_node env self clk state))
               = no_update\<lparr> st_text_analysis := Some r,
                           st_messages := [''Text classification completed''] \<rparr>"
      unfolding text_node_def Let_def by simp
    with ok show ?thesis by blast
  qed
qed

lemma text_node_in_range:
  assumes "\<forall>vars result. env_text_chain_ainvoke env vars = Inr result
             \<longrightarrow> confidence_in_range (ta_confidence result)"
  shows "case st_text_analysis (fst (snd (text_node env self clk state))) of
           None \<Rightarrow> True
         | Some r \<Rightarrow> confidence_in_range (ta_confidence r)"
proof -
  obtain r msgs where "fst (snd (text_node env self clk state))
                = no_update\<lparr> st_text_analysis := Some r, st_messages := msgs \<rparr>"
    and "confidence_in_range (ta_confidence r)"
    using text_node_update [OF assms] by blast
  then show ?thesis by simp
qed

lemma fallback_decision_in_range:
  assumes "confidence_in_range (va_confidence vision_analysis)"
    and "confidence_in_range (ta_confidence text_analysis)"
  shows "confidence_in_range
           (dc_confidence (fallback_decision float_str vision_analysis text_analysis))"
proof -
  from assms(1) have v: "0 \<le> dict_get (va_confidence vision_analysis) 0"
      "dict_get (va_confidence vision_analysis) 0 \<le> 1"
    using dict_get_confidence_bounds by blast+
  from assms(2) have t: "0 \<le> dict_get (ta_confidence text_analysis) 0"
      "dict_get (ta_confidence text_analysis) 0 \<le> 1"
    using dict_get_confidence_bounds by blast+
  show ?thesis
    unfolding fallback_decision_fields Let_def confidence_in_range_def
    using v t by simp
qed

lemma router_process_in_range:
  assumes "confidence_in_range (va_confidence vision_analysis)"
    and "confidence_in_range (ta_confidence text_analysis)"
    and arbiter: "\<forall>vars result. chain_ainvoke vars = Inr result
                    \<longrightarrow> confidence_in_range (dc_confidence result)"
    and ret: "fst (router_process float_str chain_ainvoke
                  \<lparr> ri_filename = filename, ri_vision_analysis = Some vision_analysis,
                    ri_text_analysis = Some text_analysis, ri_metadata = meta \<rparr>) = Inr d"
  shows "confidence_in_range (dc_confidence d)"
proof -
  from assms(1) have v: "0 \<le> dict_get (va_confidence vision_analysis) 0"
      "dict_get (va_confidence vision_analysis) 0 \<le> 1"
    using dict_get_confidence_bounds by blast+
  from assms(2) have t: "0 \<le> dict_get (ta_confidence text_analysis) 0"
      "dict_get (ta_confidence text_analysis) 0 \<le> 1"
    using dict_get_confidence_bounds by blast+
  from router_process_cases [OF ret]
  consider
    (quick) "dc_confidence d = Some ((dict_get (ta_confidence text_analysis) 0
                                     + dict_get (va_confidence vision_analysis) 0) / 2)"
  | (arbitrated) vars result where "chain_ainvoke vars = Inr result"
      "d = result\<lparr> dc_method := Some ''llm_decision'' \<rparr>"
  | (fallback) "d = fallback_decision float_str vision_analysis text_analysis"
    by blast
  then show ?thesis
  proof cases
    case quick
    with v t show ?thesis by (simp add: confidence_in_range_def)
  next
    case (arbitrated vars result)
    with arbiter show ?thesis by auto
  next
    case fallback
    with fallback_decision_in_range [OF assms(1) assms(2)] show ?thesis by simp
  qed
qed

lemma router_node_in_range:
  assumes "\<forall>vars result. env_router_chain_ainvoke env vars = Inr result
             \<longrightarrow> confidence_in_range (dc_confidence result)"
    and "confidence_in_range
           (va_confidence (dict_get (st_vision_analysis state) empty_vision_analysis))"
    and "confidence_in_range
           (ta_confidence (dict_get (st_text_analysis state) empty_text_analysis))"
  shows "(case st_final_decision (fst (snd (router_node env self clk state))) of
            None \<Rightarrow> True
          | Some d \<Rightarrow> confidence_in_range (dc_confidence d))
       \<and> confidence_in_range (st_confidence (fst (snd (router_node env self clk state))))"
proof (cases "dict_get (st_vision_analysis state) empty_vision_analysis = empty_vision_analysis
              \<or> dict_get (st_text_analysis state) empty_text_analysis = empty_text_analysis")
  case True
  then show ?thesis
    by (simp add: router_node_waiting no_update_def confidence_in_range_def)
next
  case False
  obtain d where d: "fst (router_process (env_repr_float env) (env_router_chain_ainvoke env)
                \<lparr> ri_filename = st_filename state,
                  ri_vision_analysis =
                    Some (dict_get (st_vision_analysis state) empty_vision_analysis),
                  ri_text_analysis =
                    Some (dict_get (st_text_analysis state) empty_text_analysis),
                  ri_metadata = Some (dict_get (st_metadata state) []) \<rparr>) = Inr d"
    using router_process_returns by blast
  have ok: "confidence_in_range (dc_confidence d)"
    using router_process_in_range [OF assms(2) assms(3) assms(1) d] .
  from False have ne: "dict_get (st_vision_analysis state) empty_vision_analysis
                         \<noteq> empty_vision_analysis"
      "dict_get (st_text_analysis state) empty_text_analysis \<noteq> empty_text_analysis"
    by simp_all
  show ?thesis
    unfolding router_node_routed [OF ne d]
    using ok
    by (cases "dc_confidence d")
       (simp_all add: router_error_def no_update_def empty_decision_def
          confidence_in_range_def)
qed

lemma write_key_cases: "write_key old new = old \<or> write_key old new = new"
  by (cases new) (simp_all add: write_key_def)

lemma apply_update_analyses:
  "st_vision_analysis (apply_update state upd)
     = write_key (st_vision_analysis state) (st_vision_analysis upd)"
  "st_text_analysis (apply_update state upd)
     = write_key (st_text_analysis state) (st_text_analysis upd)"
  by (simp_all add: apply_update_def)

lemma apply_update_in_range:
  assumes "state_confidences_in_range state" and "state_confidences_in_range upd"
  shows "state_confidences_in_range (apply_update state upd)"
proof -
  have "st_confidence (apply_update state upd) = st_confidence state
        \<or> st_confidence (apply_update state upd) = st_confidence upd"
    using write_key_cases [of "st_confidence state" "st_confidence upd"]
    by (simp add: apply_update_def)
  moreover
  have "st_final_decision (apply_update state upd) = st_final_decision state
        \<or> st_final_decision (apply_update state upd) = st_final_decision upd"
    using write_key_cases [of "st_final_decision state" "st_final_decision upd"]
    by (simp add: apply_update_def)
  ultimately show ?thesis
    using assms unfolding state_confidences_in_range_def by auto
qed

lemma no_confidence_written:
  assumes "st_confidence upd = None" and "st_final_decision upd = None"
  shows "state_confidences_in_range upd"
  using assms by (simp add: state_confidences_in_range_def confidence_in_range_def)

lemma intake_node_frame:
  "state_confidences_in_range (fst (snd (intake_node env self clk state)))"
proof (rule no_confidence_written)
  show "st_confidence (fst (snd (intake_node env self clk state))) = None"
    unfolding intake_node_def execute_def Let_def
    by (auto simp: intake_failed_def no_update_def split: option.splits prod.splits sum.splits)
  show "st_final_decision (fst (snd (intake_node env self clk state))) = None"
    unfolding intake_node_def execute_def Let_def
    by (auto simp: intake_failed_def no_update_def split: option.splits prod.splits sum.splits)
qed

lemma organization_node_frame:
  "state_confidences_in_range (fst (snd (organization_node env self clk state)))"
proof (rule no_confidence_written)
  show "st_confidence (fst (snd (organization_node env self clk state))) = None"
    unfolding organization_node_def execute_def Let_def
    by (auto simp: organization_failed_def no_update_def
        split: option.splits prod.splits sum.splits)
  show "st_final_decision (fst (snd (organization_node env self clk state))) = None"
    unfolding organization_node_def execute_def Let_def
    by (auto simp: organization_failed_def no_update_def
        split: option.splits prod.splits sum.splits)
qed

lemma error_node_frame: "state_confidences_in_range (error_node state)"
  by (rule no_confidence_written) (simp_all add: error_node_def no_update_def)

lemma router_node_state_in_range:
  assumes "\<forall>vars result. env_router_chain_ainvoke env vars = Inr result
             \<longrightarrow> confidence_in_range (dc_confidence result)"
    and "confidence_in_range
           (va_confidence (dict_get (st_vision_analysis state) empty_vision_analysis))"
    and "confidence_in_range
           (ta_confidence (dict_get (st_text_analysis state) empty_text_analysis))"
  shows "state_confidences_in_range (fst (snd (router_node env self clk state)))"
  using router_node_in_range [OF assms] unfolding state_confidences_in_range_def by simp

lemma graph_ainvoke_in_range:
  assumes text_backend: "\<forall>vars result. env_text_chain_ainvoke env vars = Inr result
             \<longrightarrow> confidence_in_range (ta_confidence result)"
    and arbiter: "\<forall>vars result. env_router_chain_ainvoke env vars = Inr result
             \<longrightarrow> confidence_in_range (dc_confidence result)"
    and start: "state_confidences_in_range initial_state"
  shows "\<exists>final_state. graph_ainvoke env agents clocks initial_state = Inr final_state
           \<and> state_confidences_in_range final_state"
proof -
  define after_intake where "after_intake =
    apply_update initial_state
      (fst (snd (intake_node env (wf_intake_agent agents) (ck_intake clocks) initial_state)))"
  define vision_upd where "vision_upd =
    fst (snd (vision_node env (wf_vision_agent agents) (ck_vision clocks) after_intake))"
  define text_upd where "text_upd =
    fst (snd (text_node env (wf_text_agent agents) (ck_text clocks) after_intake))"
  define after_classifiers where "after_classifiers =
    apply_update (apply_update after_intake vision_upd) text_upd"
  define after_analysis where "after_analysis =
    (if check_intake_success after_intake = ''error''
     then apply_update after_classifiers (error_node after_intake)
     else after_classifiers)"
  define after_routing where "after_routing =
    apply_update after_analysis
      (fst (snd (router_node env (wf_router_agent agents) (ck_router clocks) after_analysis)))"
  define final_state where "final_state =
    apply_update after_routing
      (fst (snd (organization_node env (wf_org_agent agents) (ck_org clocks) after_routing)))"
  have run: "graph_ainvoke env agents clocks initial_state = Inr final_state"
    unfolding graph_ainvoke_def Let_def final_state_def after_routing_def after_analysis_def
      after_classifiers_def text_upd_def vision_upd_def after_intake_def
    by simp
  obtain rv mv where vision_upd: "vision_upd
        = no_update\<lparr> st_vision_analysis := Some rv, st_messages := mv \<rparr>"
    and rv: "confidence_in_range (va_confidence rv)"
    unfolding vision_upd_def using vision_node_update by blast
  obtain rt mt where text_upd: "text_upd
        = no_update\<lparr> st_text_analysis := Some rt, st_messages := mt \<rparr>"
    and rt: "confidence_in_range (ta_confidence rt)"
    unfolding text_upd_def using text_node_update [OF text_backend] by blast
  have s1: "state_confidences_in_range after_intake"
    unfolding after_intake_def using start intake_node_frame by (rule apply_update_in_range)
  have "state_confidences_in_range vision_upd"
    unfolding vision_upd by (rule no_confidence_written) (simp_all add: no_update_def)
  moreover have "state_confidences_in_range text_upd"
    unfolding text_upd by (rule no_confidence_written) (simp_all add: no_update_def)
  ultimately have s2: "state_confidences_in_range after_classifiers"
    unfolding after_classifiers_def using s1 by (simp add: apply_update_in_range)
  have s3: "state_confidences_in_range after_analysis"
    unfolding after_analysis_def using s2 error_node_frame
    by (simp add: apply_update_in_range)
  have va: "st_vision_analysis after_analysis = Some rv"
    unfolding after_analysis_def after_classifiers_def vision_upd text_upd
    by (simp add: apply_update_analyses write_key_def error_node_def no_update_def)
  have ta: "st_text_analysis after_analysis = Some rt"
    unfolding after_analysis_def after_classifiers_def vision_upd text_upd
    by (simp add: apply_update_analyses write_key_def error_node_def no_update_def)
  have "state_confidences_in_range
          (fst (snd (router_node env (wf_router_agent agents) (ck_router clocks)
                       after_analysis)))"
    using arbiter
  proof (rule router_node_state_in_range)
    show "confidence_in_range
            (va_confidence (dict_get (st_vision_analysis after_analysis) empty_vision_analysis))"
      using rv by (simp add: va dict_get_Some)
    show "confidence_in_range
            (ta_confidence (dict_get (st_text_analysis after_analysis) empty_text_analysis))"
      using rt by (simp add: ta dict_get_Some)
  qed
  with s3 have s4: "state_confidences_in_range after_routing"
    unfolding after_routing_def by (rule apply_update_in_range)
  have "state_confidences_in_range final_state"
    unfolding final_state_def using s4 organization_node_frame by (rule apply_update_in_range)
  with run show ?thesis by blast
qed

lemma pipeline_result_in_range:
  assumes "\<forall>vars result. env_text_chain_ainvoke env vars = Inr result
             \<longrightarrow> confidence_in_range (ta_confidence result)"
    and "\<forall>vars result. env_router_chain_ainvoke env vars = Inr result
             \<longrightarrow> confidence_in_range (dc_confidence result)"
  shows "confidence_in_range
           (pr_confidence (process_document (env_path_name env)
                             (graph_ainvoke env agents clocks) file_path))
       \<and> (case pr_final_decision (process_document (env_path_name env)
                                     (graph_ainvoke env agents clocks) file_path) of
            None \<Rightarrow> True
          | Some d \<Rightarrow> confidence_in_range (dc_confidence d))"
proof -
  let ?initial = "no_update\<lparr> st_file_path := Some file_path,
                             st_filename := Some (env_path_name env file_path),
                             st_messages := [] \<rparr>"
  have "state_confidences_in_range ?initial"
    by (rule no_confidence_written) (simp_all add: no_update_def)
  with assms obtain final_state
    where run: "graph_ainvoke env agents clocks ?initial = Inr final_state"
      and ok: "state_confidences_in_range final_state"
    using graph_ainvoke_in_range by blast
  have "pr_confidence (process_document (env_path_name env)
                         (graph_ainvoke env agents clocks) file_path)
        = st_confidence final_state"
    and "pr_final_decision (process_document (env_path_name env)
                              (graph_ainvoke env agents clocks) file_path)
        = st_final_decision final_state"
    unfolding process_document_def Let_def run by simp_all
  with ok show ?thesis
    unfolding state_confidences_in_range_def by simp
qed

lemma long_text_is_classified_by_the_backend:
  "(length (strip ''Quarterly revenue rose while operating profit declined during the year'')
      < 50) = False"
  by code_simp

text \<open>
  Claim C7, as amended. The confidence of the vision result is in [0, 1] for every state
  and every backend. The confidence of the text result is in [0, 1] whenever every
  confidence that the text-classification backend answers is. The confidences that the
  router node writes (the one of the decision record and the one of the state) are in
  [0, 1] whenever the vision and text confidences of the state it reads and every
  confidence that the arbiter answers are. The confidence of the pipeline result and the
  one of its decision record are in [0, 1], for every document path, whenever every
  confidence that the text-classification backend and the arbiter answer is. No value is
  clamped.
\<close>

theorem computed_confidences_in_range:
  "(case st_vision_analysis (fst (snd (vision_node env vision_agent vision_clk state))) of
      None \<Rightarrow> True
    | Some r \<Rightarrow> confidence_in_range (va_confidence r))
   \<and> ((\<forall>vars result. env_text_chain_ainvoke env vars = Inr result
            \<longrightarrow> confidence_in_range (ta_confidence result))
        \<longrightarrow> (case st_text_analysis (fst (snd (text_node env text_agent text_clk state))) of
               None \<Rightarrow> True
             | Some r \<Rightarrow> confidence_in_range (ta_confidence r)))
   \<and> ((\<forall>vars result. env_router_chain_ainvoke env vars = Inr result
            \<longrightarrow> confidence_in_range (dc_confidence result))
        \<and> confidence_in_range
            (va_confidence (dict_get (st_vision_analysis state) empty_vision_analysis))
        \<and> confidence_in_range
            (ta_confidence (dict_get (st_text_analysis state) empty_text_analysis))
        \<longrightarrow> (case st_final_decision
                     (fst (snd (router_node env router_agent router_clk state))) of
               None \<Rightarrow> True
             | Some d \<Rightarrow> confidence_in_range (dc_confidence d))
            \<and> confidence_in_range
                (st_confidence (fst (snd (router_node env router_agent router_clk state)))))
   \<and> ((\<forall>vars result. env_text_chain_ainvoke env vars = Inr result
            \<longrightarrow> confidence_in_range (ta_confidence result))
        \<and> (\<forall>vars result. env_router_chain_ainvoke env vars = Inr result
            \<longrightarrow> confidence_in_range (dc_confidence result))
        \<longrightarrow> confidence_in_range
              (pr_confidence (process_document (env_path_name env)
                                (graph_ainvoke env agents clocks) file_path))
            \<and> (case pr_final_decision (process_document (env_path_name env)
                                          (graph_ainvoke env agents clocks) file_path) of
                 None \<Rightarrow> True
               | Some d \<Rightarrow> confidence_in_range (dc_confidence d)))"
proof (intro conjI impI)
  show "case st_vision_analysis (fst (snd (vision_node env vision_agent vision_clk state))) of
          None \<Rightarrow> True
        | Some r \<Rightarrow> confidence_in_range (va_confidence r)"
    by (rule vision_node_in_range)
next
  assume "\<forall>vars result. env_text_chain_ainvoke env vars = Inr result
            \<longrightarrow> confidence_in_range (ta_confidence result)"
  then show "case st_text_analysis (fst (snd (text_node env text_agent text_clk state))) of
               None \<Rightarrow> True
             | Some r \<Rightarrow> confidence_in_range (ta_confidence r)"
    by (rule text_node_in_range)
next
  assume h: "(\<forall>vars result. env_router_chain_ainvoke env vars = Inr result
            \<longrightarrow> confidence_in_range (dc_confidence result))
        \<and> confidence_in_range
            (va_confidence (dict_get (st_vision_analysis state) empty_vision_analysis))
        \<and> confidence_in_range
            (ta_confidence (dict_get (st_text_analysis state) empty_text_analysis))"
  have both: "(case st_final_decision
                     (fst (snd (router_node env router_agent router_clk state))) of
               None \<Rightarrow> True
             | Some d \<Rightarrow> confidence_in_range (dc_confidence d))
            \<and> confidence_in_range
                (st_confidence (fst (snd (router_node env router_agent router_clk state))))"
    using h by (intro router_node_in_range) blast+
  from both show "case st_final_decision
                     (fst (snd (router_node env router_agent router_clk state))) of
               None \<Rightarrow> True
             | Some d \<Rightarrow> confidence_in_range (dc_confidence d)"
    by blast
  from both show "confidence_in_range
                (st_confidence (fst (snd (router_node env router_agent router_clk state))))"
    by blast
next
  assume h: "(\<forall>vars result. env_text_chain_ainvoke env vars = Inr result
            \<longrightarrow> confidence_in_range (ta_confidence result))
        \<and> (\<forall>vars result. env_router_chain_ainvoke env vars = Inr result
            \<longrightarrow> confidence_in_range (dc_confidence result))"
  have both: "confidence_in_range
              (pr_confidence (process_document (env_path_name env)
                                (graph_ainvoke env agents clocks) file_path))
            \<and> (case pr_final_decision (process_document (env_path_name env)
                                          (graph_ainvoke env agents clocks) file_path) of
                 None \<Rightarrow> True
               | Some d \<Rightarrow> confidence_in_range (dc_confidence d))"
    using h by (intro pipeline_result_in_range) blast+
  from both show "confidence_in_range
              (pr_confidence (process_document (env_path_name env)
                                (graph_ainvoke env agents clocks) file_path))"
    by blast
  from both show "case pr_final_decision (process_document (env_path_name env)
                                          (graph_ainvoke env agents clocks) file_path) of
                 None \<Rightarrow> True
               | Some d \<Rightarrow> confidence_in_range (dc_confidence d)"
    by blast
qed

theorem computed_confidences_in_range_witness:
  "(let env = \<lparr> env_path_exists = (\<lambda>p. True), env_extract_metadata = (\<lambda>p. []),
                env_extract_text = (\<lambda>p. []), env_generate_preview_images = (\<lambda>p. []),
                env_vision_llm_ainvoke = (\<lambda>i. Inl (BackendError ''down'')),
                env_text_chain_ainvoke =
                  (\<lambda>v. Inr (empty_text_analysis\<lparr> ta_primary_domain := Some ''law'',
                                                 ta_confidence := Some 0.9 \<rparr>)),
                env_router_chain_ainvoke =
                  (\<lambda>v. Inr (empty_decision\<lparr> dc_final_domain := Some ''law'',
                                            dc_confidence := Some 0.8 \<rparr>)),
                env_mcp_create_domain_folder = (\<lambda>d. \<lparr> mr_success = None, mr_message = None,
                                                       mr_destination = None \<rparr>),
                env_mcp_move_file = (\<lambda>s d f. \<lparr> mr_success = None, mr_message = None,
                                                mr_destination = None \<rparr>),
                env_mcp_copy_file = (\<lambda>s d f. \<lparr> mr_success = None, mr_message = None,
                                                mr_destination = None \<rparr>),
                env_repr_float = (\<lambda>x. ''0.5''), env_format_2f = (\<lambda>x. ''0.80''),
                env_path_name = (\<lambda>p. p) \<rparr>;
        worker = \<lparr> ag_name = ''Agent'', ag_model_name = ''llama'', execution_count = 0 \<rparr>;
        clk = \<lparr> t_start = 0, t_end = 1, now_iso = ''2024-01-01T00:00:00'' \<rparr>;
        agents = \<lparr> wf_intake_agent = worker, wf_vision_agent = worker,
                   wf_text_agent = worker, wf_router_agent = worker,
                   wf_org_agent = worker \<rparr>;
        clocks = \<lparr> ck_intake = clk, ck_vision = clk, ck_text = clk, ck_router = clk,
                   ck_org = clk \<rparr>;
        state = no_update
                  \<lparr> st_filename := Some ''a.pdf'',
                    st_vision_analysis :=
                      Some (empty_vision_analysis
                             \<lparr> va_visual_domain_hints := Some [''finance''],
                               va_confidence := Some 0.25 \<rparr>),
                    st_text_analysis :=
                      Some (empty_text_analysis
                             \<lparr> ta_primary_domain := Some ''law'',
                               ta_confidence := Some 0.9 \<rparr>) \<rparr>
    in (case st_vision_analysis (fst (snd (vision_node env worker clk state))) of
          None \<Rightarrow> True
        | Some r \<Rightarrow> confidence_in_range (va_confidence r))
       \<and> (case st_text_analysis (fst (snd (text_node env worker clk state))) of
            None \<Rightarrow> True
          | Some r \<Rightarrow> confidence_in_range (ta_confidence r))
       \<and> st_confidence (fst (snd (router_node env worker clk state))) = Some 0.8
       \<and> confidence_in_range (st_confidence (fst (snd (router_node env worker clk state))))
       \<and> (case st_final_decision (fst (snd (router_node env worker clk state))) of
            None \<Rightarrow> True
          | Some d \<Rightarrow> confidence_in_range (dc_confidence d))
       \<and> confidence_in_range
           (pr_confidence (process_document (env_path_name env)
                             (graph_ainvoke env agents clocks) ''/in/a.pdf''))
       \<and> (case pr_final_decision (process_document (env_path_name env)
                                     (graph_ainvoke env agents clocks) ''/in/a.pdf'') of
            None \<Rightarrow> True
          | Some d \<Rightarrow> confidence_in_range (dc_confidence d)))"
proof -
  let ?env = "\<lparr> env_path_exists = (\<lambda>p. True), env_extract_metadata = (\<lambda>p. []),
                env_extract_text = (\<lambda>p. []), env_generate_preview_images = (\<lambda>p. []),
                env_vision_llm_ainvoke = (\<lambda>i. Inl (BackendError ''down'')),
                env_text_chain_ainvoke =
                  (\<lambda>v. Inr (empty_text_analysis\<lparr> ta_primary_domain := Some ''law'',
                                                 ta_confidence := Some 0.9 \<rparr>)),
                env_router_chain_ainvoke =
                  (\<lambda>v. Inr (empty_decision\<lparr> dc_final_domain := Some ''law'',
                                            dc_confidence := Some 0.8 \<rparr>)),
                env_mcp_create_domain_folder = (\<lambda>d. \<lparr> mr_success = None, mr_message = None,
                                                       mr_destination = None \<rparr>),
                env_mcp_move_file = (\<lambda>s d f. \<lparr> mr_success = None, mr_message = None,
                                                mr_destination = None \<rparr>),
                env_mcp_copy_file = (\<lambda>s d f. \<lparr> mr_success = None, mr_message = None,
                                                mr_destination = None \<rparr>),
                env_repr_float = (\<lambda>x. ''0.5''), env_format_2f = (\<lambda>x. ''0.80''),
                env_path_name = (\<lambda>p. p) \<rparr>"
  let ?worker = "\<lparr> ag_name = ''Agent'', ag_model_name = ''llama'', execution_count = 0 \<rparr>"
  let ?clk = "\<lparr> t_start = 0, t_end = 1, now_iso = ''2024-01-01T00:00:00'' \<rparr>"
  let ?agents = "\<lparr> wf_intake_agent = ?worker, wf_vision_agent = ?worker,
                   wf_text_agent = ?worker, wf_router_agent = ?worker,
                   wf_org_agent = ?worker \<rparr>"
  let ?clocks = "\<lparr> ck_intake = ?clk, ck_vision = ?clk, ck_text = ?clk, ck_router = ?clk,
                   ck_org = ?clk \<rparr>"
  let ?state = "no_update
                  \<lparr> st_filename := Some ''a.pdf'',
                    st_vision_analysis :=
                      Some (empty_vision_analysis
                             \<lparr> va_visual_domain_hints := Some [''finance''],
                               va_confidence := Some 0.25 \<rparr>),
                    st_text_analysis :=
                      Some (empty_text_analysis
                             \<lparr> ta_primary_domain := Some ''law'',
                               ta_confidence := Some 0.9 \<rparr>) \<rparr>"
  have text_backend: "\<forall>vars result. env_text_chain_ainvoke ?env vars = Inr result
             \<longrightarrow> confidence_in_range (ta_confidence result)"
    by (auto simp: confidence_in_range_def empty_text_analysis_def)
  have arbiter: "\<forall>vars result. env_router_chain_ainvoke ?env vars = Inr result
             \<longrightarrow> confidence_in_range (dc_confidence result)"
    by (auto simp: confidence_in_range_def empty_decision_def)
  have vision_ok: "confidence_in_range
           (va_confidence (dict_get (st_vision_analysis ?state) empty_vision_analysis))"
    by (simp add: no_update_def dict_get_def empty_vision_analysis_def confidence_in_range_def)
  have text_ok: "confidence_in_range
           (ta_confidence (dict_get (st_text_analysis ?state) empty_text_analysis))"
    by (simp add: no_update_def dict_get_def empty_text_analysis_def confidence_in_range_def)
  have run: "st_confidence (fst (snd (router_node ?env ?worker ?clk ?state))) = Some 0.8"
    by (simp add: router_node_def execute_def router_process_def router_prompt_def Let_def
        no_update_def dict_get_def empty_vision_analysis_def empty_text_analysis_def
        empty_decision_def)
  note ranges = computed_confidences_in_range
            [where env = ?env and state = ?state and vision_agent = ?worker
               and vision_clk = ?clk and text_agent = ?worker and text_clk = ?clk
               and router_agent = ?worker and router_clk = ?clk
               and agents = ?agents and clocks = ?clocks and file_path = "''/in/a.pdf''"]
  show ?thesis
    unfolding Let_def
    using ranges text_backend arbiter vision_ok text_ok run
    by blast
qed

text \<open>
  Claim C7 as stated fails: a confidence of 1.5 answered by the text-classification backend
  is the confidence of the text result.
\<close>

theorem unclamped_confidence_counterexample:
  "st_text_analysis
     (fst (snd (text_node
        \<lparr> env_path_exists = (\<lambda>p. True), env_extract_metadata = (\<lambda>p. []),
          env_extract_text = (\<lambda>p. []), env_generate_preview_images = (\<lambda>p. []),
          env_vision_llm_ainvoke = (\<lambda>i. Inl (BackendError ''down'')),
          env_text_chain_ainvoke =
            (\<lambda>v. Inr (empty_text_analysis\<lparr> ta_primary_domain := Some ''finance'',
                                           ta_confidence := Some 1.5 \<rparr>)),
          env_router_chain_ainvoke = (\<lambda>v. Inl (BackendError ''down'')),
          env_mcp_create_domain_folder = (\<lambda>d. \<lparr> mr_success = None, mr_message = None,
                                                 mr_destination = None \<rparr>),
          env_mcp_move_file = (\<lambda>s d f. \<lparr> mr_success = None, mr_message = None,
                                          mr_destination = None \<rparr>),
          env_mcp_copy_file = (\<lambda>s d f. \<lparr> mr_success = None, mr_message = None,
                                          mr_destination = None \<rparr>),
          env_repr_float = (\<lambda>x. ''1.5''), env_format_2f = (\<lambda>x. ''1.50''),
          env_path_name = (\<lambda>p. p) \<rparr>
        \<lparr> ag_name = ''TextClassificationAgent'', ag_model_name = ''llama'',
          execution_count = 0 \<rparr>
        \<lparr> t_start = 0, t_end = 1, now_iso = ''2024-01-01T00:00:00'' \<rparr>
        (no_update
           \<lparr> st_filename := Some ''report.pdf'',
             st_text_content :=
               Some ''Quarterly revenue rose while operating profit declined during the year'' \<rparr>))))
   = Some \<lparr> ta_primary_domain = Some ''finance'',
            ta_confidence = Some 1.5,
            ta_reasoning = Some [],
            ta_keywords = Some [],
            ta_alternative_domains = Some [],
            ta_method = Some ''llm'',
            ta_error = None \<rparr>
   \<and> \<not> confidence_in_range (Some 1.5)"
  by (simp add: text_node_def execute_def text_process_def llm_classification_def Let_def
      no_update_def dict_get_def empty_text_analysis_def confidence_in_range_def
      long_text_is_classified_by_the_backend)

section \<open>The pipeline result\<close>

lemma process_document_returned:
  "process_document name_of (\<lambda>initial_state. Inr final_state) file_path
   = \<lparr> pr_success = (st_processing_stage final_state = Some ''completed''),
       pr_filename = st_filename final_state,
       pr_domain = st_final_domain final_state,
       pr_confidence = st_confidence final_state,
       pr_output_path = st_output_path final_state,
       pr_final_decision = st_final_decision final_state,
       pr_messages = Some (st_messages final_state),
       pr_error = None \<rparr>"
  unfolding process_document_def Let_def by simp

lemma process_document_raised:
  "process_document name_of (\<lambda>initial_state. Inl e) file_path
   = \<lparr> pr_success = False,
       pr_filename = Some (name_of file_path),
       pr_domain = None,
       pr_confidence = None,
       pr_output_path = None,
       pr_final_decision = None,
       pr_messages = None,
       pr_error = Some (str_of_error e) \<rparr>"
  unfolding process_document_def Let_def by simp

text \<open>
  A filing that the file server refuses: \<open>process\<close> of the filing agent returns a
  dictionary with \<open>success\<close> false, \<open>execute\<close> wraps it in a successful envelope, and the
  organisation node records the stage \<open>completed\<close>; the pipeline result has \<open>success\<close> true
  and no error.
\<close>

lemma refused_filing_is_reported_completed:
  "(let env = \<lparr> env_path_exists = (\<lambda>p. True), env_extract_metadata = (\<lambda>p. []),
                env_extract_text = (\<lambda>p. []), env_generate_preview_images = (\<lambda>p. []),
                env_vision_llm_ainvoke = (\<lambda>i. Inl (BackendError ''down'')),
                env_text_chain_ainvoke = (\<lambda>v. Inl (BackendError ''down'')),
                env_router_chain_ainvoke = (\<lambda>v. Inl (BackendError ''down'')),
                env_mcp_create_domain_folder =
                  (\<lambda>d. \<lparr> mr_success = Some False,
                          mr_message = Some ''All connection attempts failed'',
                          mr_destination = None \<rparr>),
                env_mcp_move_file = (\<lambda>s d f. \<lparr> mr_success = None, mr_message = None,
                                                mr_destination = None \<rparr>),
                env_mcp_copy_file = (\<lambda>s d f. \<lparr> mr_success = None, mr_message = None,
                                                mr_destination = None \<rparr>),
                env_repr_float = (\<lambda>x. ''0.9''), env_format_2f = (\<lambda>x. ''0.90''),
                env_path_name = (\<lambda>p. ''a.pdf'') \<rparr>;
        routed = no_update
                   \<lparr> st_file_path := Some ''/in/a.pdf'', st_filename := Some ''a.pdf'',
                     st_final_domain := Some ''finance'', st_confidence := Some 0.9 \<rparr>;
        (agent', upd, calls) =
          organization_node env
            \<lparr> ag_name = ''FileOrganizationAgent'', ag_model_name = ''llama'',
              execution_count = 0 \<rparr>
            \<lparr> t_start = 0, t_end = 1, now_iso = ''2024-01-01T00:00:00'' \<rparr>
            routed;
        final_state = apply_update routed upd;
        result = process_document (env_path_name env) (\<lambda>initial_state. Inr final_state)
                   ''/in/a.pdf''
    in or_success (the (st_organization_result final_state)) = Some False
       \<and> st_processing_stage final_state = Some ''completed''
       \<and> st_output_path final_state = Some []
       \<and> calls = [CreateFolder ''finance'']
       \<and> pr_success result
       \<and> pr_error result = None)"
  by (simp add: organization_node_def execute_def org_process_def apply_update_def
      write_key_def process_document_def Let_def no_update_def dict_get_def
      empty_org_result_def str_opt_def)

subsection \<open>The run on a document that does not exist\<close>

lemma intake_node_missing_file:
  assumes "st_file_path state = Some file_path" and "\<not> env_path_exists env file_path"
  shows "fst (snd (intake_node env self clk state))
         = intake_failed (''Invalid file path: '' @ file_path)"
  using assms
  by (simp add: intake_node_def execute_def intake_process_def Let_def dict_get_def)

lemma vision_node_no_images:
  assumes "st_preview_images state = None"
  shows "fst (snd (vision_node env self clk state))
         = no_update
             \<lparr> st_vision_analysis :=
                 Some \<lparr> va_visual_domain_hints = Some [],
                        va_document_type = Some ''unknown'',
                        va_has_tables = Some False,
                        va_has_charts = Some False,
                        va_layout_type = Some ''unknown'',
                        va_confidence = Some 0,
                        va_raw_analysis = None,
                        va_error = None \<rparr>,
               st_messages := [''Vision analysis completed''] \<rparr>"
  using assms
  by (simp add: vision_node_def execute_def vision_process_def Let_def dict_get_def)

lemma empty_text_top_score:
  "snd (sorted_domains (domain_scores DOMAIN_KEYWORDS (lower [])) ! 0) = 0"
  by code_simp

lemma empty_text_keyword_fallback:
  "keyword_based_classification DOMAIN_KEYWORDS [] filename
   = Inr \<lparr> ta_primary_domain = Some ''general'',
           ta_confidence = Some 0.3,
           ta_reasoning = Some ''No domain-specific keywords found'',
           ta_keywords = Some [],
           ta_alternative_domains = Some [],
           ta_method = Some ''keyword_fallback'',
           ta_error = None \<rparr>"
proof -
  have "3 \<le> length DOMAIN_KEYWORDS" by (simp add: catalog_length)
  then show ?thesis
    using keyword_fallback_unfolded [of DOMAIN_KEYWORDS "[]" filename]
    unfolding Let_def by (simp add: empty_text_top_score)
qed

lemma text_node_no_text:
  assumes "st_text_content state = None"
  shows "fst (snd (text_node env self clk state))
         = no_update
             \<lparr> st_text_analysis :=
                 Some \<lparr> ta_primary_domain = Some ''general'',
                        ta_confidence = Some 0.3,
                        ta_reasoning = Some ''No domain-specific keywords found'',
                        ta_keywords = Some [],
                        ta_alternative_domains = Some [],
                        ta_method = Some ''keyword_fallback'',
                        ta_error = None \<rparr>,
               st_messages := [''Text classification completed''] \<rparr>"
  using assms
  by (simp add: text_node_def execute_def text_process_def Let_def dict_get_def
      empty_text_keyword_fallback)

lemma router_node_no_evidence:
  assumes "st_vision_analysis state
           = Some \<lparr> va_visual_domain_hints = Some [],
                    va_document_type = Some ''unknown'',
                    va_has_tables = Some False,
                    va_has_charts = Some False,
                    va_layout_type = Some ''unknown'',
                    va_confidence = Some 0,
                    va_raw_analysis = None,
                    va_error = None \<rparr>"
    and "st_text_analysis state
         = Some \<lparr> ta_primary_domain = Some ''general'',
                  ta_confidence = Some 0.3,
                  ta_reasoning = Some ''No domain-specific keywords found'',
                  ta_keywords = Some [],
                  ta_alternative_domains = Some [],
                  ta_method = Some ''keyword_fallback'',
                  ta_error = None \<rparr>"
    and "\<forall>vars. env_router_chain_ainvoke env vars = Inl e"
  shows "fst (snd (router_node env self clk state))
         = no_update
             \<lparr> st_final_decision :=
                 Some \<lparr> dc_final_domain = Some ''general'',
                        dc_confidence = Some 0.4,
                        dc_reasoning =
                          Some (''Fallback decision based on text analysis (''
                                @ env_repr_float env 0.3 @ '') and vision hints''),
                        dc_agreement_level = Some ''none'',
                        dc_primary_evidence = Some ''Text content analysis weighted higher'',
                        dc_method = Some ''fallback_weighted'',
                        dc_error = None \<rparr>,
               st_final_domain := Some ''general'',
               st_confidence := Some 0.4,
               st_messages :=
                 [''Classified as general with '' @ env_format_2f env 0.4
                  @ '' confidence''] \<rparr>"
  using assms
  by (simp add: router_node_def execute_def router_process_def fallback_decision_def
      Let_def dict_get_def empty_vision_analysis_def empty_text_analysis_def str_opt_def)

lemma organization_node_missing_file:
  assumes "st_file_path state = Some file_path" and "st_filename state = Some filename"
    and "file_path \<noteq> []" and "filename \<noteq> []" and "\<not> env_path_exists env file_path"
  shows "fst (snd (organization_node env self clk state))
         = organization_failed (Some (''File not found: '' @ file_path))
             (''File not found: '' @ file_path)"
  using assms
  by (simp add: organization_node_def execute_def org_process_def Let_def dict_get_def)

lemma missing_document_run:
  assumes missing: "\<not> env_path_exists env file_path"
    and arbiter_down: "\<forall>vars. env_router_chain_ainvoke env vars = Inl e"
    and path: "file_path \<noteq> []" and name: "env_path_name env file_path \<noteq> []"
  shows "\<exists>final_state.
           graph_ainvoke env agents clocks
             (no_update\<lparr> st_file_path := Some file_path,
                        st_filename := Some (env_path_name env file_path),
                        st_messages := [] \<rparr>) = Inr final_state
         \<and> st_processing_stage final_state = Some ''organization_failed''
         \<and> st_error final_state = Some (''File not found: '' @ file_path)
         \<and> st_filename final_state = Some (env_path_name env file_path)
         \<and> st_final_domain final_state = Some ''general''
         \<and> st_confidence final_state = Some 0.4
         \<and> st_output_path final_state = None
         \<and> st_final_decision final_state
             = Some \<lparr> dc_final_domain = Some ''general'',
                      dc_confidence = Some 0.4,
                      dc_reasoning =
                        Some (''Fallback decision based on text analysis (''
                              @ env_repr_float env 0.3 @ '') and vision hints''),
                      dc_agreement_level = Some ''none'',
                      dc_primary_evidence = Some ''Text content analysis weighted higher'',
                      dc_method = Some ''fallback_weighted'',
                      dc_error = None \<rparr>
         \<and> ''Processing failed: Invalid file path: '' @ file_path
             \<in> set (st_messages final_state)"
proof -
  define initial_state where "initial_state =
    no_update\<lparr> st_file_path := Some file_path,
               st_filename := Some (env_path_name env file_path),
               st_messages := [] \<rparr>"
  define after_intake where "after_intake =
    apply_update initial_state
      (fst (snd (intake_node env (wf_intake_agent agents) (ck_intake clocks) initial_state)))"
  define after_classifiers where "after_classifiers =
    apply_update
      (apply_update after_intake
         (fst (snd (vision_node env (wf_vision_agent agents) (ck_vision clocks)
                      after_intake))))
      (fst (snd (text_node env (wf_text_agent agents) (ck_text clocks) after_intake)))"
  define after_analysis where "after_analysis =
    (if check_intake_success after_intake = ''error''
     then apply_update after_classifiers (error_node after_intake)
     else after_classifiers)"
  define after_routing where "after_routing =
    apply_update after_analysis
      (fst (snd (router_node env (wf_router_agent agents) (ck_router clocks) after_analysis)))"
  define final_state where "final_state =
    apply_update after_routing
      (fst (snd (organization_node env (wf_org_agent agents) (ck_org clocks) after_routing)))"
  have run: "graph_ainvoke env agents clocks initial_state = Inr final_state"
    unfolding graph_ainvoke_def Let_def final_state_def after_routing_def after_analysis_def
      after_classifiers_def after_intake_def
    by simp
  have "st_file_path initial_state = Some file_path"
    by (simp add: initial_state_def no_update_def)
  then have "fst (snd (intake_node env (wf_intake_agent agents) (ck_intake clocks)
                         initial_state))
             = intake_failed (''Invalid file path: '' @ file_path)"
    using missing by (rule intake_node_missing_file)
  then have s1: "after_intake
      = no_update\<lparr> st_file_path := Some file_path,
                   st_filename := Some (env_path_name env file_path),
                   st_processing_stage := Some ''intake_failed'',
                   st_error := Some (''Invalid file path: '' @ file_path) \<rparr>"
    unfolding after_intake_def initial_state_def
    by (simp add: apply_update_def write_key_def intake_failed_def no_update_def)
  have v: "fst (snd (vision_node env (wf_vision_agent agents) (ck_vision clocks) after_intake))
      = no_update
             \<lparr> st_vision_analysis :=
                 Some \<lparr> va_visual_domain_hints = Some [],
                        va_document_type = Some ''unknown'',
                        va_has_tables = Some False,
                        va_has_charts = Some False,
                        va_layout_type = Some ''unknown'',
                        va_confidence = Some 0,
                        va_raw_analysis = None,
                        va_error = None \<rparr>,
               st_messages := [''Vision analysis completed''] \<rparr>"
    by (rule vision_node_no_images) (simp add: s1 no_update_def)
  have t: "fst (snd (text_node env (wf_text_agent agents) (ck_text clocks) after_intake))
      = no_update
             \<lparr> st_text_analysis :=
                 Some \<lparr> ta_primary_domain = Some ''general'',
                        ta_confidence = Some 0.3,
                        ta_reasoning = Some ''No domain-specific keywords found'',
                        ta_keywords = Some [],
                        ta_alternative_domains = Some [],
                        ta_method = Some ''keyword_fallback'',
                        ta_error = None \<rparr>,
               st_messages := [''Text classification completed''] \<rparr>"
    by (rule text_node_no_text) (simp add: s1 no_update_def)
  have routed_to_error: "check_intake_success after_intake = ''error''"
    by (simp add: s1 check_intake_success_def no_update_def)
  have s3: "after_analysis
      = no_update\<lparr> st_file_path := Some file_path,
                   st_filename := Some (env_path_name env file_path),
                   st_vision_analysis :=
                     Some \<lparr> va_visual_domain_hints = Some [],
                            va_document_type = Some ''unknown'',
                            va_has_tables = Some False,
                            va_has_charts = Some False,
                            va_layout_type = Some ''unknown'',
                            va_confidence = Some 0,
                            va_raw_analysis = None,
                            va_error = None \<rparr>,
                   st_text_analysis :=
                     Some \<lparr> ta_primary_domain = Some ''general'',
                            ta_confidence = Some 0.3,
                            ta_reasoning = Some ''No domain-specific keywords found'',
                            ta_keywords = Some [],
                            ta_alternative_domains = Some [],
                            ta_method = Some ''keyword_fallback'',
                            ta_error = None \<rparr>,
                   st_processing_stage := Some ''failed'',
                   st_error := Some (''Invalid file path: '' @ file_path),
                   st_messages :=
                     [''Vision analysis completed'', ''Text classification completed'',
                      ''Processing failed: Invalid file path: '' @ file_path] \<rparr>"
    unfolding after_analysis_def after_classifiers_def routed_to_error v t
    by (simp add: s1 apply_update_def write_key_def error_node_def str_opt_def no_update_def)
  have r: "fst (snd (router_node env (wf_router_agent agents) (ck_router clocks)
                       after_analysis))
      = no_update
             \<lparr> st_final_decision :=
                 Some \<lparr> dc_final_domain = Some ''general'',
                        dc_confidence = Some 0.4,
                        dc_reasoning =
                          Some (''Fallback decision based on text analysis (''
                                @ env_repr_float env 0.3 @ '') and vision hints''),
                        dc_agreement_level = Some ''none'',
                        dc_primary_evidence = Some ''Text content analysis weighted higher'',
                        dc_method = Some ''fallback_weighted'',
                        dc_error = None \<rparr>,
               st_final_domain := Some ''general'',
               st_confidence := Some 0.4,
               st_messages :=
                 [''Classified as general with '' @ env_format_2f env 0.4
                  @ '' confidence''] \<rparr>"
  proof (rule router_node_no_evidence)
    show "st_vision_analysis after_analysis
           = Some \<lparr> va_visual_domain_hints = Some [],
                    va_document_type = Some ''unknown'',
                    va_has_tables = Some False,
                    va_has_charts = Some False,
                    va_layout_type = Some ''unknown'',
                    va_confidence = Some 0,
                    va_raw_analysis = None,
                    va_error = None \<rparr>"
      by (simp add: s3 no_update_def)
    show "st_text_analysis after_analysis
         = Some \<lparr> ta_primary_domain = Some ''general'',
                  ta_confidence = Some 0.3,
                  ta_reasoning = Some ''No domain-specific keywords found'',
                  ta_keywords = Some [],
                  ta_alternative_domains = Some [],
                  ta_method = Some ''keyword_fallback'',
                  ta_error = None \<rparr>"
      by (simp add: s3 no_update_def)
    show "\<forall>vars. env_router_chain_ainvoke env vars = Inl e"
      by (rule arbiter_down)
  qed
  have s4_path: "st_file_path after_routing = Some file_path"
    and s4_name: "st_filename after_routing = Some (env_path_name env file_path)"
    unfolding after_routing_def r
    by (simp_all add: s3 apply_update_def write_key_def no_update_def)
  have o: "fst (snd (organization_node env (wf_org_agent agents) (ck_org clocks)
                       after_routing))
           = organization_failed (Some (''File not found: '' @ file_path))
               (''File not found: '' @ file_path)"
    using s4_path s4_name path name missing by (rule organization_node_missing_file)
  have fs: "final_state
      = apply_update after_routing
          (organization_failed (Some (''File not found: '' @ file_path))
             (''File not found: '' @ file_path))"
    unfolding final_state_def o by (rule refl)
  have "st_processing_stage final_state = Some ''organization_failed''"
    and "st_error final_state = Some (''File not found: '' @ file_path)"
    and "st_filename final_state = Some (env_path_name env file_path)"
    and "st_final_domain final_state = Some ''general''"
    and "st_confidence final_state = Some 0.4"
    and "st_output_path final_state = None"
    and "st_final_decision final_state
             = Some \<lparr> dc_final_domain = Some ''general'',
                      dc_confidence = Some 0.4,
                      dc_reasoning =
                        Some (''Fallback decision based on text analysis (''
                              @ env_repr_float env 0.3 @ '') and vision hints''),
                      dc_agreement_level = Some ''none'',
                      dc_primary_evidence = Some ''Text content analysis weighted higher'',
                      dc_method = Some ''fallback_weighted'',
                      dc_error = None \<rparr>"
    and "''Processing failed: Invalid file path: '' @ file_path
             \<in> set (st_messages final_state)"
    unfolding fs after_routing_def r
    by (simp_all add: s3 apply_update_def write_key_def organization_failed_def no_update_def)
  with run show ?thesis
    unfolding initial_state_def by blast
qed

text \<open>
  Claim C8, evaluated where it fails. The document path does not exist and the arbiter
  cannot be reached. The intake agent raises, and the intake node records the error string
  and the stage \<open>intake_failed\<close>. The plain edges of the graph run both classifiers on the
  state without content, and the conditional edge runs the error handler beside them. The
  router takes the weighted vote, and the filing agent raises on the missing file: the
  final state holds the stage \<open>organization_failed\<close> and the error string of the filing
  agent. The result that \<open>process_document\<close> builds from that final state has \<open>success\<close>
  false, the domain \<open>general\<close> with confidence 0.4, and no error string; and for this path
  no final state of the graph gives the result an error string, since the dictionary built
  on the normal return has no such entry.
\<close>

theorem fatal_error_string_is_dropped:
  "(let env = \<lparr> env_path_exists = (\<lambda>p. False), env_extract_metadata = (\<lambda>p. []),
                env_extract_text = (\<lambda>p. []), env_generate_preview_images = (\<lambda>p. []),
                env_vision_llm_ainvoke = (\<lambda>i. Inl (BackendError ''down'')),
                env_text_chain_ainvoke = (\<lambda>v. Inl (BackendError ''down'')),
                env_router_chain_ainvoke = (\<lambda>v. Inl (BackendError ''down'')),
                env_mcp_create_domain_folder = (\<lambda>d. \<lparr> mr_success = None, mr_message = None,
                                                       mr_destination = None \<rparr>),
                env_mcp_move_file = (\<lambda>s d f. \<lparr> mr_success = None, mr_message = None,
                                                mr_destination = None \<rparr>),
                env_mcp_copy_file = (\<lambda>s d f. \<lparr> mr_success = None, mr_message = None,
                                                mr_destination = None \<rparr>),
                env_repr_float = (\<lambda>x. ''0.3''), env_format_2f = (\<lambda>x. ''0.40''),
                env_path_name = (\<lambda>p. ''missing.pdf'') \<rparr>;
        worker = \<lparr> ag_name = ''Agent'', ag_model_name = ''llama'', execution_count = 0 \<rparr>;
        clk = \<lparr> t_start = 0, t_end = 1, now_iso = ''2024-01-01T00:00:00'' \<rparr>;
        agents = \<lparr> wf_intake_agent = worker, wf_vision_agent = worker,
                   wf_text_agent = worker, wf_router_agent = worker,
                   wf_org_agent = worker \<rparr>;
        clocks = \<lparr> ck_intake = clk, ck_vision = clk, ck_text = clk, ck_router = clk,
                   ck_org = clk \<rparr>;
        initial_state = no_update\<lparr> st_file_path := Some ''/missing.pdf'',
                                   st_filename := Some ''missing.pdf'',
                                   st_messages := [] \<rparr>;
        result = process_document (env_path_name env) (graph_ainvoke env agents clocks)
                   ''/missing.pdf''
    in (case graph_ainvoke env agents clocks initial_state of
          Inl e \<Rightarrow> False
        | Inr final_state \<Rightarrow>
            st_processing_stage final_state = Some ''organization_failed''
            \<and> st_error final_state = Some ''File not found: /missing.pdf''
            \<and> ''Processing failed: Invalid file path: /missing.pdf''
                \<in> set (st_messages final_state))
       \<and> pr_success result = False
       \<and> pr_filename result = Some ''missing.pdf''
       \<and> pr_domain result = Some ''general''
       \<and> pr_confidence result = Some 0.4
       \<and> pr_output_path result = None
       \<and> pr_final_decision result
           = Some \<lparr> dc_final_domain = Some ''general'',
                    dc_confidence = Some 0.4,
                    dc_reasoning =
                      Some ''Fallback decision based on text analysis (0.3) and vision hints'',
                    dc_agreement_level = Some ''none'',
                    dc_primary_evidence = Some ''Text content analysis weighted higher'',
                    dc_method = Some ''fallback_weighted'',
                    dc_error = None \<rparr>
       \<and> pr_error result = None)
   \<and> (\<forall>final_state.
         pr_error (process_document (\<lambda>p. ''missing.pdf'') (\<lambda>initial_state. Inr final_state)
                     ''/missing.pdf'') = None)"
proof -
  let ?env = "\<lparr> env_path_exists = (\<lambda>p. False), env_extract_metadata = (\<lambda>p. []),
                env_extract_text = (\<lambda>p. []), env_generate_preview_images = (\<lambda>p. []),
                env_vision_llm_ainvoke = (\<lambda>i. Inl (BackendError ''down'')),
                env_text_chain_ainvoke = (\<lambda>v. Inl (BackendError ''down'')),
                env_router_chain_ainvoke = (\<lambda>v. Inl (BackendError ''down'')),
                env_mcp_create_domain_folder = (\<lambda>d. \<lparr> mr_success = None, mr_message = None,
                                                       mr_destination = None \<rparr>),
                env_mcp_move_file = (\<lambda>s d f. \<lparr> mr_success = None, mr_message = None,
                                                mr_destination = None \<rparr>),
                env_mcp_copy_file = (\<lambda>s d f. \<lparr> mr_success = None, mr_message = None,
                                                mr_destination = None \<rparr>),
                env_repr_float = (\<lambda>x. ''0.3''), env_format_2f = (\<lambda>x. ''0.40''),
                env_path_name = (\<lambda>p. ''missing.pdf'') \<rparr>"
  let ?worker = "\<lparr> ag_name = ''Agent'', ag_model_name = ''llama'', execution_count = 0 \<rparr>"
  let ?clk = "\<lparr> t_start = 0, t_end = 1, now_iso = ''2024-01-01T00:00:00'' \<rparr>"
  let ?agents = "\<lparr> wf_intake_agent = ?worker, wf_vision_agent = ?worker,
                   wf_text_agent = ?worker, wf_router_agent = ?worker,
                   wf_org_agent = ?worker \<rparr>"
  let ?clocks = "\<lparr> ck_intake = ?clk, ck_vision = ?clk, ck_text = ?clk, ck_router = ?clk,
                   ck_org = ?clk \<rparr>"
  let ?initial = "no_update\<lparr> st_file_path := Some ''/missing.pdf'',
                              st_filename := Some ''missing.pdf'',
                              st_messages := [] \<rparr>"
  have "\<exists>final_state.
           graph_ainvoke ?env ?agents ?clocks
             (no_update\<lparr> st_file_path := Some ''/missing.pdf'',
                        st_filename := Some (env_path_name ?env ''/missing.pdf''),
                        st_messages := [] \<rparr>) = Inr final_state
         \<and> st_processing_stage final_state = Some ''organization_failed''
         \<and> st_error final_state = Some (''File not found: '' @ ''/missing.pdf'')
         \<and> st_filename final_state = Some (env_path_name ?env ''/missing.pdf'')
         \<and> st_final_domain final_state = Some ''general''
         \<and> st_confidence final_state = Some 0.4
         \<and> st_output_path final_state = None
         \<and> st_final_decision final_state
             = Some \<lparr> dc_final_domain = Some ''general'',
                      dc_confidence = Some 0.4,
                      dc_reasoning =
                        Some (''Fallback decision based on text analysis (''
                              @ env_repr_float ?env 0.3 @ '') and vision hints''),
                      dc_agreement_level = Some ''none'',
                      dc_primary_evidence = Some ''Text content analysis weighted higher'',
                      dc_method = Some ''fallback_weighted'',
                      dc_error = None \<rparr>
         \<and> ''Processing failed: Invalid file path: '' @ ''/missing.pdf''
             \<in> set (st_messages final_state)"
    by (rule missing_document_run [where e = "BackendError ''down''"]) simp_all
  then obtain final_state
    where run: "graph_ainvoke ?env ?agents ?clocks ?initial = Inr final_state"
      and stage: "st_processing_stage final_state = Some ''organization_failed''"
      and err: "st_error final_state = Some ''File not found: /missing.pdf''"
      and name: "st_filename final_state = Some ''missing.pdf''"
      and dom: "st_final_domain final_state = Some ''general''"
      and conf: "st_confidence final_state = Some 0.4"
      and out: "st_output_path final_state = None"
      and dec: "st_final_decision final_state
             = Some \<lparr> dc_final_domain = Some ''general'',
                      dc_confidence = Some 0.4,
                      dc_reasoning =
                        Some ''Fallback decision based on text analysis (0.3) and vision hints'',
                      dc_agreement_level = Some ''none'',
                      dc_primary_evidence = Some ''Text content analysis weighted higher'',
                      dc_method = Some ''fallback_weighted'',
                      dc_error = None \<rparr>"
      and msg: "''Processing failed: Invalid file path: /missing.pdf''
             \<in> set (st_messages final_state)"
    by auto
  have result: "process_document (env_path_name ?env) (graph_ainvoke ?env ?agents ?clocks)
                  ''/missing.pdf''
      = \<lparr> pr_success = (st_processing_stage final_state = Some ''completed''),
          pr_filename = st_filename final_state,
          pr_domain = st_final_domain final_state,
          pr_confidence = st_confidence final_state,
          pr_output_path = st_output_path final_state,
          pr_final_decision = st_final_decision final_state,
          pr_messages = Some (st_messages final_state),
          pr_error = None \<rparr>"
    using run unfolding process_document_def Let_def by simp
  have no_entry: "\<forall>final_state.
         pr_error (process_document (\<lambda>p. ''missing.pdf'') (\<lambda>initial_state. Inr final_state)
                     ''/missing.pdf'') = None"
    by (simp add: process_document_returned)
  show ?thesis
    unfolding Let_def result run
    using stage err name dom conf out dec msg no_entry by simp
qed

end
